theory Spec2Isabelle
  imports Main
begin

section \<open>Values, tokens and the session\<close>

text \<open>
  The Python values that flow through the session, the query string and the token
  endpoint's JSON: \<open>None\<close>, strings and integers. \<open>truthy\<close> is Python's truth test,
  used by every \<open>if x\<close> and \<open>x and y\<close> of the decorators.
\<close>

datatype jval = JNone | JStr string | JInt int

fun truthy :: "jval \<Rightarrow> bool" where
  "truthy JNone = False"
| "truthy (JStr s) = (s \<noteq> [])"
| "truthy (JInt i) = (i \<noteq> 0)"

datatype exn = KeyError string | TypeError | ClientError string

type_synonym pydict = "(string \<times> jval) list"

record authtoken =
  token :: jval
  refresh_token :: jval
  expires_in :: jval
  token_type :: jval

text \<open>\<open>d.get(k)\<close> on a dict literal or a parsed JSON object.\<close>

definition dict_get :: "pydict \<Rightarrow> string \<Rightarrow> jval" where
  "dict_get d k = (case map_of d k of None \<Rightarrow> JNone | Some v \<Rightarrow> v)"

text \<open>
  Modelled from the spec: the \<open>AuthToken\<close> class of the external cardboard client,
  which is not part of this repository's sources. The spec describes it as a value object
  built from a data dict shaped like \<open>{access_token, refresh_token, expires_in, token_type}\<close>;
  the decorators read its attributes \<open>token\<close>, \<open>refresh_token\<close> and \<open>expires_in\<close>.
  A key the dict lacks reads as \<open>None\<close>.
\<close>

definition AuthToken :: "pydict \<Rightarrow> authtoken" where
  "AuthToken data =
     \<lparr>token = dict_get data ''access_token'',
      refresh_token = dict_get data ''refresh_token'',
      expires_in = dict_get data ''expires_in'',
      token_type = dict_get data ''token_type''\<rparr>"

text \<open>What the wrapped handler receives as injected positional arguments.\<close>

datatype harg = HVal jval | HTok authtoken

type_synonym session_dict = "string \<rightharpoonup> jval"

text \<open>
  Everything a decorator does besides returning is recorded: the session is threaded
  through, and each call to an external collaborator, each session write of the decorator
  and each invocation of the wrapped handler (with the session it sees) is appended to a
  trace.
\<close>

datatype event =
    EvCheck jval
  | EvRefresh jval
  | EvRevoke jval
  | EvPost string "(string \<times> string) list" "(string \<times> string) list"
  | EvSet string jval
  | EvPop string
  | EvCall "harg list" session_dict

record state =
  session :: session_dict
  trace :: "event list"

datatype 'r outcome = Redirect jval | Returned 'r | Raised exn

datatype post_result = PInt int | PDict pydict

record http_response =
  status :: int
  json :: "exn + post_result"

text \<open>
  The external collaborators of one request: the synchronous and asynchronous cardboard
  clients, the HTTP client, the clock (\<open>round(time.time())\<close>, which every path of a
  decorator reads at most once) and the wrapped route function, which may itself change
  the session and may raise. The thread pool and the event loop only run these calls to
  completion and hand back their result or exception, so they leave no trace here.
\<close>

record 'r world =
  cbsync_check_token :: "jval \<Rightarrow> exn + bool"
  cb_refresh_token :: "jval \<Rightarrow> exn + authtoken"
  cbsync_revoke_token :: "jval \<Rightarrow> exn + unit"
  http_post :: "string \<Rightarrow> (string \<times> string) list \<Rightarrow> (string \<times> string) list \<Rightarrow> exn + http_response"
  now :: int
  route_function :: "harg list \<Rightarrow> session_dict \<Rightarrow> (exn + 'r) \<times> session_dict"

record request =
  args_code :: "string option"
  url :: string

section \<open>The integration object\<close>

text \<open>
  The attributes \<open>__init__\<close> sets: the client's credentials and URLs, and the session
  prefix from which the four session keys are formed. The login redirect is the custom
  login URL unless that is \<open>None\<close> or empty.
\<close>

record flask_integration =
  client_id :: string
  secret :: string
  baseurl :: string
  app_url :: string
  session_prefix :: string
  login_url :: "string option"

definition session_token :: "flask_integration \<Rightarrow> string" where
  "session_token fi = session_prefix fi @ ''token''"

definition session_refresh :: "flask_integration \<Rightarrow> string" where
  "session_refresh fi = session_prefix fi @ ''refresh''"

definition session_expiry :: "flask_integration \<Rightarrow> string" where
  "session_expiry fi = session_prefix fi @ ''expiry''"

definition session_rd :: "flask_integration \<Rightarrow> string" where
  "session_rd fi = session_prefix fi @ ''rd''"

definition app_login_redirect :: "flask_integration \<Rightarrow> string" where
  "app_login_redirect fi =
     (case login_url fi of None \<Rightarrow> app_url fi
      | Some u \<Rightarrow> if u = [] then app_url fi else u)"

section \<open>Session and trace primitives\<close>

definition emit :: "event \<Rightarrow> state \<Rightarrow> state" where
  "emit e st = st\<lparr>trace := trace st @ [e]\<rparr>"

definition session_get :: "state \<Rightarrow> string \<Rightarrow> jval" where
  "session_get st k = (case session st k of None \<Rightarrow> JNone | Some v \<Rightarrow> v)"

definition session_set :: "string \<Rightarrow> jval \<Rightarrow> state \<Rightarrow> state" where
  "session_set k v st = st\<lparr>session := (session st)(k \<mapsto> v), trace := trace st @ [EvSet k v]\<rparr>"

text \<open>\<open>session.pop(k, None)\<close>: the stored value or \<open>None\<close>, the key removed.\<close>

definition session_pop_default :: "string \<Rightarrow> state \<Rightarrow> jval \<times> state" where
  "session_pop_default k st =
     (session_get st k, st\<lparr>session := (session st)(k := None), trace := trace st @ [EvPop k]\<rparr>)"

text \<open>\<open>session.pop(k)\<close>: raises \<open>KeyError\<close> when the key is absent.\<close>

definition session_pop :: "string \<Rightarrow> state \<Rightarrow> (exn + jval) \<times> state" where
  "session_pop k st =
     (case session st k of
        None \<Rightarrow> (Inl (KeyError k), st)
      | Some v \<Rightarrow> (Inr v, st\<lparr>session := (session st)(k := None), trace := trace st @ [EvPop k]\<rparr>))"

text \<open>Integer arithmetic on Python values: anything but two integers raises.\<close>

fun py_add :: "jval \<Rightarrow> jval \<Rightarrow> exn + jval" where
  "py_add (JInt a) (JInt b) = Inr (JInt (a + b))"
| "py_add _ _ = Inl TypeError"

fun py_sub :: "jval \<Rightarrow> jval \<Rightarrow> exn + jval" where
  "py_sub (JInt a) (JInt b) = Inr (JInt (a - b))"
| "py_sub _ _ = Inl TypeError"

section \<open>Helpers of the class\<close>

text \<open>
  \<open>_constructAuthToken(token, expiry, refresh)\<close>: the data dict carries
  \<open>expiry - round(time.time())\<close> as \<open>expires_in\<close> and the fixed token type.
\<close>

definition constructAuthToken :: "'r world \<Rightarrow> jval \<Rightarrow> jval \<Rightarrow> jval \<Rightarrow> exn + authtoken" where
  "constructAuthToken w tok expiry refresh =
     (case py_sub expiry (JInt (now w)) of
        Inl e \<Rightarrow> Inl e
      | Inr d \<Rightarrow> Inr (AuthToken [(''access_token'', tok), (''refresh_token'', refresh),
                                (''expires_in'', d), (''token_type'', JStr ''Bearer'')]))"

text \<open>
  \<open>asyncpost(url, data, headers)\<close>: the parsed JSON on status 200, else the status.
\<close>

definition asyncpost ::
  "'r world \<Rightarrow> string \<Rightarrow> (string \<times> string) list \<Rightarrow> (string \<times> string) list \<Rightarrow> state
     \<Rightarrow> (exn + post_result) \<times> state" where
  "asyncpost w u data headers st =
     (let st1 = emit (EvPost u data headers) st in
      case http_post w u data headers of
        Inl e \<Rightarrow> (Inl e, st1)
      | Inr response \<Rightarrow>
          (if status response = 200 then json response else Inr (PInt (status response)), st1))"

text \<open>
  The guard shared by the decorators,
  \<open>thetoken and ThreadPoolExecutor().submit(lambda: cbsync.check_token(thetoken)).result()\<close>:
  the check runs only for a truthy stored token, and its exception propagates.
\<close>

definition token_valid :: "'r world \<Rightarrow> jval \<Rightarrow> state \<Rightarrow> (exn + bool) \<times> state" where
  "token_valid w thetoken st =
     (if truthy thetoken then (cbsync_check_token w thetoken, emit (EvCheck thetoken) st)
      else (Inr False, st))"

definition call_handler :: "'r world \<Rightarrow> harg list \<Rightarrow> state \<Rightarrow> (exn + 'r) \<times> state" where
  "call_handler w as st =
     (let st1 = emit (EvCall as (session st)) st;
          (r, s') = route_function w as (session st)
      in (r, st1\<lparr>session := s'\<rparr>))"

text \<open>
  \<open>return route_function(...)\<close>: the handler's result is the response, and its
  exception propagates.
\<close>

definition invoke :: "'r world \<Rightarrow> harg list \<Rightarrow> state \<Rightarrow> 'r outcome \<times> state" where
  "invoke w as st =
     (case call_handler w as st of
        (Inl e, st1) \<Rightarrow> (Raised e, st1)
      | (Inr result, st1) \<Rightarrow> (Returned result, st1))"

text \<open>
  The tail both invoking branches of \<open>autologin\<close> share (lines 91-95 and 114-118): call
  the route function, then consume a pending redirect if the session holds one.
\<close>

definition invoke_then_rd ::
  "flask_integration \<Rightarrow> 'r world \<Rightarrow> harg \<Rightarrow> state \<Rightarrow> 'r outcome \<times> state" where
  "invoke_then_rd fi w tok st =
     (case call_handler w [tok] st of
        (Inl e, st1) \<Rightarrow> (Raised e, st1)
      | (Inr result, st1) \<Rightarrow>
          if truthy (session_get st1 (session_rd fi)) then
            (case session_pop (session_rd fi) st1 of
               (Inl e, st2) \<Rightarrow> (Raised e, st2)
             | (Inr a, st2) \<Rightarrow> (Redirect a, st2))
          else (Returned result, st1))"

text \<open>The form body and headers of the code exchange (lines 97-105 and 180-188).\<close>

definition exchange_data :: "flask_integration \<Rightarrow> string \<Rightarrow> (string \<times> string) list" where
  "exchange_data fi code =
     [(''code'', code), (''client_id'', client_id fi), (''client_secret'', secret fi),
      (''grant_type'', ''authorization_code'')]"

definition exchange_headers :: "(string \<times> string) list" where
  "exchange_headers = [(''Content-Type'', ''application/x-www-form-urlencoded'')]"

text \<open>
  Lines 111-113 of \<open>autologin\<close>: the three session writes after a successful exchange.
  The sum for the expiry is evaluated after the token has been stored.
\<close>

definition persist :: "flask_integration \<Rightarrow> 'r world \<Rightarrow> authtoken \<Rightarrow> state \<Rightarrow> exn option \<times> state" where
  "persist fi w t st =
     (let st1 = session_set (session_token fi) (token t) st in
      case py_add (JInt (now w)) (expires_in t) of
        Inl e \<Rightarrow> (Some e, st1)
      | Inr v \<Rightarrow>
          (None, session_set (session_refresh fi) (refresh_token t)
                   (session_set (session_expiry fi) v st1)))"

section \<open>The decorators\<close>

definition autologin ::
  "flask_integration \<Rightarrow> 'r world \<Rightarrow> request \<Rightarrow> state \<Rightarrow> 'r outcome \<times> state" where
  "autologin fi w rq st =
     (let code = args_code rq;
          thetoken = session_get st (session_token fi)
      in case token_valid w thetoken st of
        (Inl e, st1) \<Rightarrow> (Raised e, st1)
      | (Inr ok, st1) \<Rightarrow>
          if ok then
            (if truthy (session_get st1 (session_expiry fi)) \<and>
                truthy (session_get st1 (session_refresh fi)) then
               (case constructAuthToken w thetoken (session_get st1 (session_expiry fi))
                       (session_get st1 (session_refresh fi)) of
                  Inl e \<Rightarrow> (Raised e, st1)
                | Inr t \<Rightarrow> invoke_then_rd fi w (HTok t) st1)
             else if truthy (session_get st1 (session_refresh fi)) then
               (let st2 = emit (EvRefresh (session_get st1 (session_refresh fi))) st1 in
                case cb_refresh_token w (session_get st1 (session_refresh fi)) of
                  Inl e \<Rightarrow> (Redirect (JStr (app_login_redirect fi)), st2)
                | Inr t \<Rightarrow> invoke_then_rd fi w (HTok t) st2)
             else invoke_then_rd fi w (HVal thetoken) st1)
          else
            (case code of
               None \<Rightarrow> (Redirect (JStr (app_login_redirect fi)), st1)
             | Some c \<Rightarrow>
                 if c = [] then (Redirect (JStr (app_login_redirect fi)), st1)
                 else
                   (case asyncpost w (baseurl fi @ ''/token'') (exchange_data fi c)
                           exchange_headers st1 of
                      (Inl e, st2) \<Rightarrow> (Raised e, st2)
                    | (Inr (PInt n), st2) \<Rightarrow> (Redirect (JStr (app_login_redirect fi)), st2)
                    | (Inr (PDict response), st2) \<Rightarrow>
                        (case persist fi w (AuthToken response) st2 of
                           (Some e, st3) \<Rightarrow> (Raised e, st3)
                         | (None, st3) \<Rightarrow> invoke_then_rd fi w (HTok (AuthToken response)) st3))))"

definition login_autoexchange ::
  "flask_integration \<Rightarrow> 'r world \<Rightarrow> request \<Rightarrow> state \<Rightarrow> 'r outcome \<times> state" where
  "login_autoexchange fi w rq st =
     (let code = args_code rq;
          thetoken = session_get st (session_token fi)
      in case token_valid w thetoken st of
        (Inl e, st1) \<Rightarrow> (Raised e, st1)
      | (Inr ok, st1) \<Rightarrow>
          if ok then invoke w [HVal thetoken] st1
          else
            (case code of
               None \<Rightarrow> invoke w [HVal JNone] st1
             | Some c \<Rightarrow>
                 if c = [] then invoke w [HVal JNone] st1
                 else
                   (case asyncpost w (baseurl fi @ ''/token'') (exchange_data fi c)
                           exchange_headers st1 of
                      (Inl e, st2) \<Rightarrow> (Raised e, st2)
                    | (Inr (PInt n), st2) \<Rightarrow> invoke w [HVal JNone] st2
                    | (Inr (PDict response), st2) \<Rightarrow> invoke w [HTok (AuthToken response)] st2)))"

definition logged_in ::
  "flask_integration \<Rightarrow> 'r world \<Rightarrow> request \<Rightarrow> state \<Rightarrow> 'r outcome \<times> state" where
  "logged_in fi w rq st =
     (let thetoken = session_get st (session_token fi)
      in case token_valid w thetoken st of
        (Inl e, st1) \<Rightarrow> (Raised e, st1)
      | (Inr ok, st1) \<Rightarrow>
          if ok then
            (if truthy (session_get st1 (session_expiry fi)) \<and>
                truthy (session_get st1 (session_refresh fi)) then
               (case constructAuthToken w (session_get st1 (session_token fi))
                       (session_get st1 (session_expiry fi))
                       (session_get st1 (session_refresh fi)) of
                  Inl e \<Rightarrow> (Raised e, st1)
                | Inr t \<Rightarrow> invoke w [HTok t] st1)
             else if truthy (session_get st1 (session_refresh fi)) then
               (let st2 = emit (EvRefresh (session_get st1 (session_refresh fi))) st1 in
                case cb_refresh_token w (session_get st1 (session_refresh fi)) of
                  Inl e \<Rightarrow>
                    (Redirect (JStr (app_login_redirect fi)),
                     session_set (session_rd fi) (JStr (url rq)) st2)
                | Inr t \<Rightarrow> invoke w [HTok t] st2)
             else invoke w [HVal (session_get st1 (session_token fi))] st1)
          else
            (Redirect (JStr (app_login_redirect fi)),
             session_set (session_rd fi) (JStr (url rq)) st1))"

definition autologout :: "flask_integration \<Rightarrow> 'r world \<Rightarrow> state \<Rightarrow> 'r outcome \<times> state" where
  "autologout fi w st =
     (let (ot, st1) = session_pop_default (session_token fi) st;
          (_, st2) = session_pop_default (session_expiry fi) st1;
          (_, st3) = session_pop_default (session_refresh fi) st2;
          (_, st4) = session_pop_default (session_rd fi) st3;
          st5 = (if truthy ot then
                   (case cbsync_revoke_token w ot of
                      Inl e \<Rightarrow> emit (EvRevoke ot) st4
                    | Inr u \<Rightarrow> emit (EvRevoke ot) st4)
                 else st4)
      in invoke w [] st5)"

section \<open>Observations on a trace\<close>

fun handler_calls :: "event list \<Rightarrow> (harg list \<times> session_dict) list" where
  "handler_calls [] = []"
| "handler_calls (EvCall as s # es) = (as, s) # handler_calls es"
| "handler_calls (_ # es) = handler_calls es"

fun posts :: "event list \<Rightarrow> (string \<times> (string \<times> string) list \<times> (string \<times> string) list) list" where
  "posts [] = []"
| "posts (EvPost u d h # es) = (u, d, h) # posts es"
| "posts (_ # es) = posts es"

fun refreshes :: "event list \<Rightarrow> jval list" where
  "refreshes [] = []"
| "refreshes (EvRefresh r # es) = r # refreshes es"
| "refreshes (_ # es) = refreshes es"

fun session_writes :: "event list \<Rightarrow> string list" where
  "session_writes [] = []"
| "session_writes (EvSet k v # es) = k # session_writes es"
| "session_writes (EvPop k # es) = k # session_writes es"
| "session_writes (_ # es) = session_writes es"

fun revokes :: "event list \<Rightarrow> jval list" where
  "revokes [] = []"
| "revokes (EvRevoke t # es) = t # revokes es"
| "revokes (_ # es) = revokes es"

section \<open>A concrete deployment\<close>

text \<open>
  One integration object, one world and a few sessions and requests, on which the
  theorems below are instantiated. The provider accepts the stored token \<open>good\<close> only,
  exchanges the refresh token \<open>R\<close> and the authorization code \<open>abc123\<close>, and fails every
  revoke call; the route function returns a page and leaves the session alone.
\<close>

definition example_fi :: flask_integration where
  "example_fi =
     \<lparr>client_id = ''cid'', secret = ''sec'', baseurl = ''https://api.test'',
      app_url = ''https://app.test/login'', session_prefix = ''cardboard_'',
      login_url = None\<rparr>"

definition example_response :: pydict where
  "example_response =
     [(''access_token'', JStr ''T''), (''refresh_token'', JStr ''R''),
      (''expires_in'', JInt 3600)]"

definition example_refreshed :: authtoken where
  "example_refreshed =
     \<lparr>token = JStr ''N'', refresh_token = JStr ''R2'', expires_in = JInt 3600,
      token_type = JStr ''Bearer''\<rparr>"

definition example_world :: "string world" where
  "example_world =
     \<lparr>cbsync_check_token = (\<lambda>t. Inr (t = JStr ''good'')),
      cb_refresh_token =
        (\<lambda>r. if r = JStr ''R'' then Inr example_refreshed
             else Inl (ClientError ''invalid refresh token'')),
      cbsync_revoke_token = (\<lambda>t. Inl (ClientError ''revoke failed'')),
      http_post =
        (\<lambda>u d h. if map_of d ''code'' = Some ''abc123''
                 then Inr \<lparr>status = 200, json = Inr (PDict example_response)\<rparr>
                 else Inr \<lparr>status = 400, json = Inl (ClientError ''no body'')\<rparr>),
      now = 1000,
      route_function = (\<lambda>as s. (Inr ''page'', s))\<rparr>"

text \<open>The same world with the token endpoint unreachable: the POST itself raises.\<close>

definition offline_world :: "string world" where
  "offline_world =
     example_world\<lparr>http_post := (\<lambda>u d h. Inl (ClientError ''connection refused''))\<rparr>"

definition request_plain :: request where
  "request_plain = \<lparr>args_code = None, url = ''https://site.test/dashboard''\<rparr>"

definition request_code :: request where
  "request_code = \<lparr>args_code = Some ''abc123'', url = ''https://site.test/login''\<rparr>"

definition request_badcode :: request where
  "request_badcode = \<lparr>args_code = Some ''zzz'', url = ''https://site.test/login''\<rparr>"

definition state_empty :: state where
  "state_empty = \<lparr>session = Map.empty, trace = []\<rparr>"

definition state_good :: state where
  "state_good = \<lparr>session = [''cardboard_token'' \<mapsto> JStr ''good''], trace = []\<rparr>"

definition state_old :: state where
  "state_old = \<lparr>session = [''cardboard_token'' \<mapsto> JStr ''old''], trace = []\<rparr>"

definition state_good_rd :: state where
  "state_good_rd =
     \<lparr>session = [''cardboard_token'' \<mapsto> JStr ''good'',
                 ''cardboard_rd'' \<mapsto> JStr ''https://site.test/dashboard''],
      trace = []\<rparr>"

definition state_refresh_only :: state where
  "state_refresh_only =
     \<lparr>session = [''cardboard_token'' \<mapsto> JStr ''good'', ''cardboard_refresh'' \<mapsto> JStr ''R''],
      trace = []\<rparr>"

definition state_stale_refresh :: state where
  "state_stale_refresh =
     \<lparr>session = [''cardboard_token'' \<mapsto> JStr ''good'',
                 ''cardboard_refresh'' \<mapsto> JStr ''stale''],
      trace = []\<rparr>"

definition state_expired :: state where
  "state_expired =
     \<lparr>session = [''cardboard_token'' \<mapsto> JStr ''old'', ''cardboard_refresh'' \<mapsto> JStr ''R'',
                 ''cardboard_expiry'' \<mapsto> JInt 900],
      trace = []\<rparr>"

definition state_past_expiry :: state where
  "state_past_expiry =
     \<lparr>session = [''cardboard_token'' \<mapsto> JStr ''good'', ''cardboard_refresh'' \<mapsto> JStr ''R'',
                 ''cardboard_expiry'' \<mapsto> JInt 900],
      trace = []\<rparr>"

section \<open>Basic facts\<close>

lemmas example_defs = example_fi_def example_response_def example_refreshed_def
  example_world_def offline_world_def request_plain_def request_code_def request_badcode_def
  state_empty_def state_good_def state_old_def state_good_rd_def state_refresh_only_def
  state_stale_refresh_def state_expired_def state_past_expiry_def
  session_token_def session_refresh_def session_expiry_def session_rd_def
  app_login_redirect_def session_get_def

lemmas eval_defs =
  Let_def token_valid_def invoke_def invoke_then_rd_def call_handler_def asyncpost_def
  persist_def constructAuthToken_def AuthToken_def dict_get_def exchange_data_def
  exchange_headers_def session_set_def session_pop_def session_pop_default_def emit_def

lemma keys_distinct:
  "session_token fi \<noteq> session_refresh fi" "session_token fi \<noteq> session_expiry fi"
  "session_token fi \<noteq> session_rd fi" "session_refresh fi \<noteq> session_expiry fi"
  "session_refresh fi \<noteq> session_rd fi" "session_expiry fi \<noteq> session_rd fi"
  by (simp_all add: session_token_def session_refresh_def session_expiry_def session_rd_def)

lemma handler_calls_append: "handler_calls (xs @ ys) = handler_calls xs @ handler_calls ys"
  by (induction xs rule: handler_calls.induct) simp_all

lemma posts_append: "posts (xs @ ys) = posts xs @ posts ys"
  by (induction xs rule: posts.induct) simp_all

lemma refreshes_append: "refreshes (xs @ ys) = refreshes xs @ refreshes ys"
  by (induction xs rule: refreshes.induct) simp_all

lemma session_writes_append: "session_writes (xs @ ys) = session_writes xs @ session_writes ys"
  by (induction xs rule: session_writes.induct) simp_all

lemma revokes_append: "revokes (xs @ ys) = revokes xs @ revokes ys"
  by (induction xs rule: revokes.induct) simp_all

lemmas obs_append = handler_calls_append posts_append refreshes_append session_writes_append
  revokes_append

lemma trace_emit [simp]: "trace (emit e st) = trace st @ [e]"
  by (simp add: emit_def)

lemma session_emit [simp]: "session (emit e st) = session st"
  by (simp add: emit_def)

lemma session_get_emit [simp]: "session_get (emit e st) k = session_get st k"
  by (simp add: session_get_def)

lemma trace_session_set [simp]: "trace (session_set k v st) = trace st @ [EvSet k v]"
  by (simp add: session_set_def)

lemma session_session_set [simp]: "session (session_set k v st) = (session st)(k \<mapsto> v)"
  by (simp add: session_set_def)

lemma snd_case_sum_const [simp]:
  "snd (case x of Inl e \<Rightarrow> (f e, s) | Inr r \<Rightarrow> (g r, s)) = s"
  by (cases x) simp_all

text \<open>Result and final state of each effectful helper, as projections.\<close>

lemma fst_token_valid:
  "fst (token_valid w t st) = (if truthy t then cbsync_check_token w t else Inr False)"
  by (simp add: token_valid_def)

lemma snd_token_valid:
  "snd (token_valid w t st) = (if truthy t then emit (EvCheck t) st else st)"
  by (simp add: token_valid_def)

lemma fst_asyncpost:
  "fst (asyncpost w u d h st) =
     (case http_post w u d h of Inl e \<Rightarrow> Inl e
      | Inr response \<Rightarrow> if status response = 200 then json response
                         else Inr (PInt (status response)))"
  by (simp add: asyncpost_def Let_def split: sum.split)

lemma snd_asyncpost: "snd (asyncpost w u d h st) = emit (EvPost u d h) st"
  by (simp add: asyncpost_def Let_def split: sum.split)

lemma fst_persist:
  "fst (persist fi w t st) =
     (case py_add (JInt (now w)) (expires_in t) of Inl e \<Rightarrow> Some e | Inr v \<Rightarrow> None)"
  by (simp add: persist_def Let_def split: sum.split)

lemma snd_persist:
  "snd (persist fi w t st) =
     (case py_add (JInt (now w)) (expires_in t) of
        Inl e \<Rightarrow> session_set (session_token fi) (token t) st
      | Inr v \<Rightarrow> session_set (session_refresh fi) (refresh_token t)
                 (session_set (session_expiry fi) v
                   (session_set (session_token fi) (token t) st)))"
  by (simp add: persist_def Let_def split: sum.split)

lemma fst_call_handler: "fst (call_handler w as st) = fst (route_function w as (session st))"
  by (simp add: call_handler_def split_def Let_def)

lemma snd_call_handler:
  "snd (call_handler w as st) =
     \<lparr>session = snd (route_function w as (session st)),
      trace = trace st @ [EvCall as (session st)]\<rparr>"
  by (simp add: call_handler_def split_def emit_def Let_def)

lemmas run_simps = fst_token_valid snd_token_valid fst_asyncpost snd_asyncpost
  fst_persist snd_persist

lemma invoke_then_rd_calls:
  "handler_calls (trace (snd (invoke_then_rd fi w a st))) =
     handler_calls (trace st) @ [([a], session st)]"
  by (simp add: invoke_then_rd_def call_handler_def session_get_def emit_def session_pop_def
      obs_append split: prod.splits sum.splits option.splits)

lemma invoke_then_rd_redirect:
  assumes "route_function w [a] (session st) = (Inr r, s2)"
    and "s2 (session_rd fi) = Some u" and "truthy u"
  shows "invoke_then_rd fi w a st =
           (Redirect u, \<lparr>session = s2(session_rd fi := None),
                         trace = trace st @ [EvCall [a] (session st), EvPop (session_rd fi)]\<rparr>)"
  using assms
  by (simp add: invoke_then_rd_def call_handler_def session_get_def emit_def session_pop_def)

text \<open>
  What the shared tail of \<open>autologin\<close> answers, the session it leaves and the session
  writes it makes, from what the route function returns.
\<close>

lemma invoke_then_rd_run:
  assumes "route_function w [a] (session st) = (hr, s2)"
  shows "(fst (invoke_then_rd fi w a st), session (snd (invoke_then_rd fi w a st)),
          session_writes (trace (snd (invoke_then_rd fi w a st)))) =
           (case hr of
              Inl e \<Rightarrow> (Raised e, s2, session_writes (trace st))
            | Inr res \<Rightarrow>
                (case s2 (session_rd fi) of
                   None \<Rightarrow> (Returned res, s2, session_writes (trace st))
                 | Some u \<Rightarrow>
                     if truthy u
                     then (Redirect u, s2(session_rd fi := None),
                       session_writes (trace st) @ [session_rd fi])
                     else (Returned res, s2, session_writes (trace st))))"
  using assms
  by (simp add: invoke_then_rd_def call_handler_def session_get_def emit_def session_pop_def
      obs_append Let_def split: sum.split option.split)

lemma invoke_then_rd_other:
  "posts (trace (snd (invoke_then_rd fi w a st))) = posts (trace st)"
  "refreshes (trace (snd (invoke_then_rd fi w a st))) = refreshes (trace st)"
  by (simp_all add: invoke_then_rd_def split_def fst_call_handler snd_call_handler
      session_get_def session_pop_def obs_append split: sum.split option.split)

lemma fst_invoke:
  "fst (invoke w as st) =
     (case fst (route_function w as (session st)) of
        Inl e \<Rightarrow> Raised e | Inr res \<Rightarrow> Returned res)"
  by (simp add: invoke_def split_def fst_call_handler split: sum.split)

lemma snd_invoke:
  "snd (invoke w as st) =
     \<lparr>session = snd (route_function w as (session st)),
      trace = trace st @ [EvCall as (session st)]\<rparr>"
  by (simp add: invoke_def split_def snd_call_handler)

text \<open>
  Every path of \<open>autologin\<close> either never calls the route function or ends in the shared
  tail, entered before any call.
\<close>

lemma autologin_paths:
  "handler_calls (trace (snd (autologin fi w rq st))) = handler_calls (trace st) \<or>
   (\<exists>a st1. autologin fi w rq st = invoke_then_rd fi w a st1 \<and>
             handler_calls (trace st1) = handler_calls (trace st))"
proof -
  define P where "P r \<longleftrightarrow> handler_calls (trace (snd r)) = handler_calls (trace st) \<or>
    (\<exists>a st1. r = invoke_then_rd fi w a st1 \<and>
       handler_calls (trace st1) = handler_calls (trace st))" for r
  have no: "\<And>out st'. handler_calls (trace st') = handler_calls (trace st) \<Longrightarrow> P (out, st')"
    by (simp add: P_def)
  have via: "\<And>a st1. handler_calls (trace st1) = handler_calls (trace st) \<Longrightarrow>
      P (invoke_then_rd fi w a st1)"
    unfolding P_def by blast
  have "P (autologin fi w rq st)"
    unfolding autologin_def Let_def
    by (simp add: no via split_def run_simps obs_append
        split: sum.split option.split post_result.split)
  then show ?thesis by (simp add: P_def)
qed

section \<open>Claims\<close>

text \<open>
  Claim C7. On an \<open>autologin\<close> route, when the session holds a token that passes the
  validity check and holds neither a refresh token nor an expiry, the wrapped handler is
  invoked, once, with that stored token value unchanged as its first argument and on
  the session as it was. What the handler returns decides the rest: its exception
  propagates, its result is the response unless it leaves a pending redirect, and the
  final session is the one it leaves (less a consumed \<open>rd\<close> key, the decorator's only
  session write).
\<close>

theorem autologin_valid_token_unchanged:
  assumes "session st (session_token fi) = Some tok" and "truthy tok"
    and "cbsync_check_token w tok = Inr True"
    and "session st (session_refresh fi) = None" and "session st (session_expiry fi) = None"
    and run: "route_function w [HVal tok] (session st) = (hr, s2)"
  shows "handler_calls (trace (snd (autologin fi w rq st))) =
           handler_calls (trace st) @ [([HVal tok], session st)] \<and>
         (fst (autologin fi w rq st), session (snd (autologin fi w rq st)),
          session_writes (trace (snd (autologin fi w rq st)))) =
           (case hr of
              Inl e \<Rightarrow> (Raised e, s2, session_writes (trace st))
            | Inr res \<Rightarrow>
                (case s2 (session_rd fi) of
                   None \<Rightarrow> (Returned res, s2, session_writes (trace st))
                 | Some u \<Rightarrow>
                     if truthy u
                     then (Redirect u, s2(session_rd fi := None),
                       session_writes (trace st) @ [session_rd fi])
                     else (Returned res, s2, session_writes (trace st))))"
proof -
  from assms have eq: "autologin fi w rq st =
      invoke_then_rd fi w (HVal tok) (emit (EvCheck tok) st)"
    by (simp add: autologin_def token_valid_def session_get_def)
  from run have run': "route_function w [HVal tok] (session (emit (EvCheck tok) st)) = (hr, s2)"
    by simp
  show ?thesis
    unfolding eq using invoke_then_rd_run [OF run', of fi]
    by (simp add: invoke_then_rd_calls obs_append split: sum.split option.split)
qed

theorem autologin_valid_token_unchanged_witness:
  "session state_good (session_token example_fi) = Some (JStr ''good'') \<and>
   truthy (JStr ''good'') \<and>
   cbsync_check_token example_world (JStr ''good'') = Inr True \<and>
   session state_good (session_refresh example_fi) = None \<and>
   session state_good (session_expiry example_fi) = None \<and>
   route_function example_world [HVal (JStr ''good'')] (session state_good) =
     ((Inr ''page''), (session state_good)) \<and>
   handler_calls (trace (snd (autologin example_fi example_world request_plain state_good))) =
     handler_calls (trace state_good) @ [([HVal (JStr ''good'')], session state_good)] \<and>
   (fst (autologin example_fi example_world request_plain state_good),
     session (snd (autologin example_fi example_world request_plain state_good)),
    session_writes (trace (snd (autologin example_fi example_world request_plain state_good)))) =
     (case (Inr ''page'') of
        Inl e \<Rightarrow> (Raised e, (session state_good), session_writes (trace state_good))
      | Inr res \<Rightarrow>
          (case (session state_good) (session_rd example_fi) of
             None \<Rightarrow> (Returned res, (session state_good), session_writes (trace state_good))
           | Some u \<Rightarrow>
               if truthy u
               then (Redirect u, (session state_good)(session_rd example_fi := None),
                 session_writes (trace state_good) @ [session_rd example_fi])
               else (Returned res, (session state_good), session_writes (trace state_good)))) \<and>
   fst (autologin example_fi example_world request_plain state_good) = Returned ''page'' \<and>
   session (snd (autologin example_fi example_world request_plain state_good)) =
     session state_good"
proof -
  have a1: "session state_good (session_token example_fi) = Some (JStr ''good'')"
    by (simp add: example_defs)
  have a2: "truthy (JStr ''good'')"
    by (simp add: example_defs)
  have a3: "cbsync_check_token example_world (JStr ''good'') = Inr True"
    by (simp add: example_defs)
  have a4: "session state_good (session_refresh example_fi) = None"
    by (simp add: example_defs)
  have a5: "session state_good (session_expiry example_fi) = None"
    by (simp add: example_defs)
  have a6: "route_function example_world [HVal (JStr ''good'')] (session state_good) =
    ((Inr ''page''), (session state_good))"
    by (simp add: example_defs)
  note t = autologin_valid_token_unchanged [where rq = request_plain, OF a1 a2 a3 a4 a5 a6]
  from t have e1: "fst (autologin example_fi example_world request_plain state_good) =
    Returned ''page''"
    by (simp add: example_defs)
  from t have e2: "session (snd (autologin example_fi example_world request_plain state_good)) =
      session state_good"
    by (simp add: example_defs)
  from t e1 e2 a1 a2 a3 a4 a5 a6 show ?thesis by blast
qed

text \<open>
  Claim C4. On an \<open>autologin\<close> route, when the wrapped handler has been invoked and has
  returned, and the session it leaves holds a pending-redirect URL under the \<open>rd\<close> key,
  the decorator's response is a redirect to that URL instead of the handler's result, and
  the \<open>rd\<close> key is popped from the session.
\<close>

theorem autologin_pending_redirect:
  assumes call: "handler_calls (trace (snd (autologin fi w rq st))) =
                   handler_calls (trace st) @ [(as, s)]"
    and ret: "route_function w as s = (Inr r, s2)"
    and rd: "s2 (session_rd fi) = Some u" and tr: "truthy u"
  shows "fst (autologin fi w rq st) = Redirect u \<and>
         session (snd (autologin fi w rq st)) = s2(session_rd fi := None) \<and>
         session (snd (autologin fi w rq st)) (session_rd fi) = None"
proof -
  from autologin_paths [of fi w rq st] call
  obtain a st1 where inv: "autologin fi w rq st = invoke_then_rd fi w a st1"
    and pre: "handler_calls (trace st1) = handler_calls (trace st)"
    by auto
  have "handler_calls (trace (snd (autologin fi w rq st))) =
      handler_calls (trace st1) @ [([a], session st1)]"
    using invoke_then_rd_calls [of fi w a st1] inv by simp
  with call pre have "as = [a]" "s = session st1" by simp_all
  with ret have "route_function w [a] (session st1) = (Inr r, s2)" by simp
  from invoke_then_rd_redirect [OF this rd tr] inv show ?thesis by simp
qed

theorem autologin_pending_redirect_witness:
  "handler_calls (trace (snd (autologin example_fi example_world request_plain state_good_rd))) =
     handler_calls (trace state_good_rd) @ [([HVal (JStr ''good'')], session state_good_rd)] \<and>
   route_function example_world [HVal (JStr ''good'')] (session state_good_rd) =
     (Inr ''page'', session state_good_rd) \<and>
   session state_good_rd (session_rd example_fi) = Some (JStr ''https://site.test/dashboard'') \<and>
   truthy (JStr ''https://site.test/dashboard'') \<and>
   fst (autologin example_fi example_world request_plain state_good_rd) =
     Redirect (JStr ''https://site.test/dashboard'') \<and>
   session (snd (autologin example_fi example_world request_plain state_good_rd)) =
     (session state_good_rd)(session_rd example_fi := None) \<and>
   session (snd (autologin example_fi example_world request_plain state_good_rd))
     (session_rd example_fi) = None"
proof -
  have h1: "handler_calls
      (trace (snd (autologin example_fi example_world request_plain state_good_rd))) =
     handler_calls (trace state_good_rd) @ [([HVal (JStr ''good'')], session state_good_rd)]"
    by (simp add: example_defs eval_defs autologin_def)
  have h2: "route_function example_world [HVal (JStr ''good'')] (session state_good_rd) =
     (Inr ''page'', session state_good_rd)"
    by (simp add: example_defs)
  have h3: "session state_good_rd (session_rd example_fi) =
      Some (JStr ''https://site.test/dashboard'')"
    by (simp add: example_defs)
  have h4: "truthy (JStr ''https://site.test/dashboard'')" by simp
  from autologin_pending_redirect [OF h1 h2 h3 h4] h1 h2 h3 h4
  show ?thesis by blast
qed

text \<open>
  Claim C5. On an \<open>autologout\<close> route the decorator pops the token, expiry, refresh and
  rd keys from the session, whether or not they were there, and only then invokes the
  wrapped handler, exactly once and without an injected argument: the handler runs on
  the request's session with the four keys removed, the final session is the one the
  handler leaves from there, and the response is whatever the handler returns or raises.
  A truthy stored token is handed to the revoke call once; nothing is assumed about that
  call, so its failure changes neither the session nor the handler's invocation.
\<close>

theorem autologout_clears_before_handler:
  "handler_calls (trace (snd (autologout fi w st))) =
     handler_calls (trace st) @
       [([], session st |` (- {session_token fi, session_refresh fi, session_expiry fi,
         session_rd fi}))] \<and>
   (session st |` (- {session_token fi, session_refresh fi, session_expiry fi, session_rd fi}))
     (session_token fi) = None \<and>
   (session st |` (- {session_token fi, session_refresh fi, session_expiry fi, session_rd fi}))
     (session_refresh fi) = None \<and>
   (session st |` (- {session_token fi, session_refresh fi, session_expiry fi, session_rd fi}))
     (session_expiry fi) = None \<and>
   (session st |` (- {session_token fi, session_refresh fi, session_expiry fi, session_rd fi}))
     (session_rd fi) = None \<and>
   fst (autologout fi w st) =
     (case fst (route_function w []
          (session st |` (- {session_token fi, session_refresh fi, session_expiry fi,
            session_rd fi}))) of
        Inl e \<Rightarrow> Raised e | Inr result \<Rightarrow> Returned result) \<and>
   session (snd (autologout fi w st)) =
     snd (route_function w []
       (session st |` (- {session_token fi, session_refresh fi, session_expiry fi,
         session_rd fi}))) \<and>
   session_writes (trace (snd (autologout fi w st))) =
     session_writes (trace st) @
       [session_token fi, session_expiry fi, session_refresh fi, session_rd fi] \<and>
   revokes (trace (snd (autologout fi w st))) =
     revokes (trace st) @
       (if truthy (session_get st (session_token fi))
        then [session_get st (session_token fi)] else [])"
proof -
  have eq: "(session st)(session_token fi := None, session_expiry fi := None,
        session_refresh fi := None, session_rd fi := None) =
      session st |` (- {session_token fi, session_refresh fi, session_expiry fi, session_rd fi})"
    by (rule ext) (simp add: restrict_map_def)
  have run: "snd (autologout fi w st) =
      \<lparr>session = snd (route_function w []
         (session st |` (- {session_token fi, session_refresh fi, session_expiry fi,
                            session_rd fi}))),
       trace = trace st @
         [EvPop (session_token fi), EvPop (session_expiry fi), EvPop (session_refresh fi),
          EvPop (session_rd fi)] @
         (if truthy (session_get st (session_token fi))
          then [EvRevoke (session_get st (session_token fi))] else []) @
         [EvCall [] (session st |` (- {session_token fi, session_refresh fi,
                                       session_expiry fi, session_rd fi}))]\<rparr>"
    by (simp add: autologout_def Let_def session_pop_default_def split_def snd_invoke
        emit_def eq split: sum.split)
  have res: "fst (autologout fi w st) =
     (case fst (route_function w []
          (session st |` (- {session_token fi, session_refresh fi, session_expiry fi,
                             session_rd fi}))) of
        Inl e \<Rightarrow> Raised e | Inr result \<Rightarrow> Returned result)"
    by (simp add: autologout_def Let_def session_pop_default_def split_def fst_invoke
        emit_def eq split: sum.split)
  show ?thesis
    unfolding run res by (simp add: obs_append)
qed

text \<open>
  The same at a session that holds a token and a pending redirect, in a world whose
  revoke call raises: the handler still runs, on the emptied session, which is also the
  final one.
\<close>

theorem autologout_clears_before_handler_witness:
  "cbsync_revoke_token example_world (JStr ''good'') = Inl (ClientError ''revoke failed'') \<and>
   session state_good_rd ''cardboard_token'' = Some (JStr ''good'') \<and>
   handler_calls (trace (snd (autologout example_fi example_world state_good_rd))) =
     [([], Map.empty)] \<and>
   fst (autologout example_fi example_world state_good_rd) = Returned ''page'' \<and>
   session (snd (autologout example_fi example_world state_good_rd)) = Map.empty \<and>
   session_writes (trace (snd (autologout example_fi example_world state_good_rd))) =
     [''cardboard_token'', ''cardboard_expiry'', ''cardboard_refresh'', ''cardboard_rd''] \<and>
   revokes (trace (snd (autologout example_fi example_world state_good_rd))) = [JStr ''good'']"
proof -
  have r: "session state_good_rd |`
      (- {session_token example_fi, session_refresh example_fi, session_expiry example_fi,
          session_rd example_fi}) = Map.empty"
    by (rule ext) (simp add: example_defs restrict_map_def)
  from autologout_clears_before_handler [of example_fi example_world state_good_rd]
  show ?thesis
    by (simp add: r) (simp add: example_defs)
qed

text \<open>
  Claim C6. A \<open>logged_in\<close> request that does not reach the wrapped handler because the
  session holds no (truthy) token, because the stored token fails validation, or because
  the refresh-token exchange is attempted and raises, stores the requested URL in the
  session under the \<open>rd\<close> key and answers with a redirect to the configured login URL;
  the handler is not invoked.
\<close>

theorem logged_in_redirect_records_url:
  assumes "\<not> truthy (session_get st (session_token fi)) \<or>
           cbsync_check_token w (session_get st (session_token fi)) = Inr False \<or>
           (cbsync_check_token w (session_get st (session_token fi)) = Inr True \<and>
            \<not> truthy (session_get st (session_expiry fi)) \<and>
            truthy (session_get st (session_refresh fi)) \<and>
            cb_refresh_token w (session_get st (session_refresh fi)) = Inl e)"
  shows "fst (logged_in fi w rq st) = Redirect (JStr (app_login_redirect fi)) \<and>
         session (snd (logged_in fi w rq st)) = (session st)(session_rd fi \<mapsto> JStr (url rq)) \<and>
         handler_calls (trace (snd (logged_in fi w rq st))) = handler_calls (trace st)"
  using assms
  by (auto simp: logged_in_def invoke_def Let_def split_def run_simps obs_append)

text \<open>
  The three causes at concrete sessions: an empty session, a stored token the provider
  rejects, and a refresh token whose exchange raises.
\<close>

theorem logged_in_redirect_records_url_witness:
  "\<not> truthy (session_get state_empty (session_token example_fi)) \<and>
   cbsync_check_token example_world (session_get state_old (session_token example_fi)) = Inr False \<and>
   cbsync_check_token example_world
     (session_get state_stale_refresh (session_token example_fi)) = Inr True \<and>
   \<not> truthy (session_get state_stale_refresh (session_expiry example_fi)) \<and>
   truthy (session_get state_stale_refresh (session_refresh example_fi)) \<and>
   cb_refresh_token example_world
     (session_get state_stale_refresh (session_refresh example_fi)) =
     Inl (ClientError ''invalid refresh token'') \<and>
   fst (logged_in example_fi example_world request_plain state_empty) =
     Redirect (JStr (app_login_redirect example_fi)) \<and>
   session (snd (logged_in example_fi example_world request_plain state_empty)) =
     (session state_empty)(session_rd example_fi \<mapsto> JStr (url request_plain)) \<and>
   handler_calls (trace (snd (logged_in example_fi example_world request_plain state_empty))) =
     handler_calls (trace state_empty) \<and>
   fst (logged_in example_fi example_world request_plain state_old) =
     Redirect (JStr (app_login_redirect example_fi)) \<and>
   session (snd (logged_in example_fi example_world request_plain state_old)) =
     (session state_old)(session_rd example_fi \<mapsto> JStr (url request_plain)) \<and>
   handler_calls (trace (snd (logged_in example_fi example_world request_plain state_old))) =
     handler_calls (trace state_old) \<and>
   fst (logged_in example_fi example_world request_plain state_stale_refresh) =
     Redirect (JStr (app_login_redirect example_fi)) \<and>
   session (snd (logged_in example_fi example_world request_plain state_stale_refresh)) =
     (session state_stale_refresh)(session_rd example_fi \<mapsto> JStr (url request_plain)) \<and>
   handler_calls (trace (snd
     (logged_in example_fi example_world request_plain state_stale_refresh))) =
       handler_calls (trace state_stale_refresh)"
proof -
  have a1: "\<not> truthy (session_get state_empty (session_token example_fi))"
    by (simp add: example_defs)
  have a2: "cbsync_check_token example_world (session_get state_old (session_token example_fi)) =
    Inr False"
    by (simp add: example_defs)
  have a3: "cbsync_check_token example_world
      (session_get state_stale_refresh (session_token example_fi)) = Inr True"
    by (simp add: example_defs)
  have a4: "\<not> truthy (session_get state_stale_refresh (session_expiry example_fi))"
    by (simp add: example_defs)
  have a5: "truthy (session_get state_stale_refresh (session_refresh example_fi))"
    by (simp add: example_defs)
  have a6: "cb_refresh_token example_world
      (session_get state_stale_refresh (session_refresh example_fi)) =
      Inl (ClientError ''invalid refresh token'')"
    by (simp add: example_defs)
  note t1 = logged_in_redirect_records_url
    [where st = state_empty and fi = example_fi and w = example_world and rq = request_plain]
  note t2 = logged_in_redirect_records_url
    [where st = state_old and fi = example_fi and w = example_world and rq = request_plain]
  note t3 = logged_in_redirect_records_url
    [where st = state_stale_refresh and fi = example_fi and w = example_world
       and rq = request_plain and e = "ClientError ''invalid refresh token''"]
  from a1 have c1: "fst (logged_in example_fi example_world request_plain state_empty) =
    Redirect (JStr (app_login_redirect example_fi)) \<and>
    session (snd (logged_in example_fi example_world request_plain state_empty)) =
      (session state_empty)(session_rd example_fi \<mapsto> JStr (url request_plain)) \<and>
    handler_calls (trace (snd (logged_in example_fi example_world request_plain state_empty))) =
      handler_calls (trace state_empty)"
    by (rule t1 [OF disjI1])
  from a2 have c2: "fst (logged_in example_fi example_world request_plain state_old) =
    Redirect (JStr (app_login_redirect example_fi)) \<and>
    session (snd (logged_in example_fi example_world request_plain state_old)) =
      (session state_old)(session_rd example_fi \<mapsto> JStr (url request_plain)) \<and>
    handler_calls (trace (snd (logged_in example_fi example_world request_plain state_old))) =
      handler_calls (trace state_old)"
    by (intro t2 disjI2 disjI1)
  from a3 a4 a5 a6 have c3: "fst
    (logged_in example_fi example_world request_plain state_stale_refresh) =
      Redirect (JStr (app_login_redirect example_fi)) \<and>
    session (snd (logged_in example_fi example_world request_plain state_stale_refresh)) =
      (session state_stale_refresh)(session_rd example_fi \<mapsto> JStr (url request_plain)) \<and>
    handler_calls (trace (snd
      (logged_in example_fi example_world request_plain state_stale_refresh))) =
        handler_calls (trace state_stale_refresh)"
    by (intro t3 disjI2 conjI)
  from c1 c2 c3 a1 a2 a3 a4 a5 a6 show ?thesis by blast
qed

text \<open>
  Claim C2, amended. The claim is stated for every decorator it cites, and fails for
  \<open>login_autoexchange\<close>, which passes \<open>None\<close> to the handler instead of redirecting. For
  \<open>autologin\<close> and \<open>logged_in\<close> it holds: when the session holds no valid stored token
  (none, a falsy one, or one the validity check rejects) and the query string carries no
  authorization code, the response is a redirect to the configured login URL and the
  wrapped handler is not invoked.
\<close>

theorem no_token_no_code_redirects:
  assumes "\<not> truthy (session_get st (session_token fi)) \<or>
           cbsync_check_token w (session_get st (session_token fi)) = Inr False"
    and "args_code rq = None \<or> args_code rq = Some []"
  shows "fst (autologin fi w rq st) = Redirect (JStr (app_login_redirect fi)) \<and>
         handler_calls (trace (snd (autologin fi w rq st))) = handler_calls (trace st) \<and>
         fst (logged_in fi w rq st) = Redirect (JStr (app_login_redirect fi)) \<and>
         handler_calls (trace (snd (logged_in fi w rq st))) = handler_calls (trace st)"
  using assms
  by (auto simp: autologin_def logged_in_def invoke_def Let_def split_def run_simps obs_append)

theorem no_token_no_code_redirects_witness:
  "\<not> truthy (session_get state_empty (session_token example_fi)) \<and>
   args_code request_plain = None \<and>
   fst (autologin example_fi example_world request_plain state_empty) =
     Redirect (JStr (app_login_redirect example_fi)) \<and>
   handler_calls (trace (snd (autologin example_fi example_world request_plain state_empty))) =
     handler_calls (trace state_empty) \<and>
   fst (logged_in example_fi example_world request_plain state_empty) =
     Redirect (JStr (app_login_redirect example_fi)) \<and>
   handler_calls (trace (snd (logged_in example_fi example_world request_plain state_empty))) =
     handler_calls (trace state_empty)"
proof -
  have a1: "\<not> truthy (session_get state_empty (session_token example_fi))"
    by (simp add: example_defs)
  have a2: "args_code request_plain = None"
    by (simp add: example_defs)
  have p1: "\<not> truthy (session_get state_empty (session_token example_fi)) \<or>
    cbsync_check_token example_world (session_get state_empty (session_token example_fi)) =
      Inr False"
    using a1 by blast
  have p2: "args_code request_plain = None \<or> args_code request_plain = Some []"
    using a2 by blast
  note t = no_token_no_code_redirects [OF p1 p2]
  from t a1 a2 show ?thesis by blast
qed

text \<open>
  Counterexample to C2 as stated: with an empty session and no code,
  \<open>login_autoexchange\<close> invokes the handler with \<open>None\<close> and returns its page.
\<close>

theorem login_autoexchange_no_redirect_counterexample:
  "session_get state_empty (session_token example_fi) = JNone \<and>
   args_code request_plain = None \<and>
   fst (login_autoexchange example_fi example_world request_plain state_empty) =
     Returned ''page'' \<and>
   handler_calls (trace (snd (login_autoexchange example_fi example_world request_plain
       state_empty))) = [([HVal JNone], Map.empty)]"
  by (simp add: example_defs eval_defs login_autoexchange_def)

text \<open>
  Claim C3. On an \<open>autologin\<close> request with no valid stored token and a (non-empty)
  authorization code, exactly one POST is made, to \<open>{base_url}/token\<close> with the form body
  \<open>{code, client_id, client_secret, grant_type: authorization_code}\<close> and the form
  content type, whatever the endpoint answers. When the answer has status 200 and its
  JSON object carries \<open>access_token\<close>, \<open>refresh_token\<close> and an integer \<open>expires_in\<close>,
  the decorator writes the access token under the token key, the clock reading plus
  \<open>expires_in\<close> under the expiry key and the refresh token under the refresh key, and
  only then invokes the handler, once, with the token built from the answer: the handler
  runs on the session so updated, the final session is the one the handler leaves (less
  a consumed \<open>rd\<close> key), and the response follows from what the handler returns.
\<close>

theorem autologin_code_exchange_persists:
  assumes novalid: "\<not> truthy (session_get st (session_token fi)) \<or>
                    cbsync_check_token w (session_get st (session_token fi)) = Inr False"
    and code: "args_code rq = Some c" "c \<noteq> []"
  shows "posts (trace (snd (autologin fi w rq st))) =
           posts (trace st) @
             [(baseurl fi @ ''/token'',
               [(''code'', c), (''client_id'', client_id fi), (''client_secret'', secret fi),
                (''grant_type'', ''authorization_code'')],
               [(''Content-Type'', ''application/x-www-form-urlencoded'')])] \<and>
         (http_post w (baseurl fi @ ''/token'')
            [(''code'', c), (''client_id'', client_id fi), (''client_secret'', secret fi),
             (''grant_type'', ''authorization_code'')]
            [(''Content-Type'', ''application/x-www-form-urlencoded'')] = Inr resp \<and>
          status resp = 200 \<and>
          json resp = Inr (PDict d) \<and>
          map_of d ''access_token'' = Some a \<and>
          map_of d ''refresh_token'' = Some r \<and>
          map_of d ''expires_in'' = Some (JInt n) \<and>
          route_function w [HTok (AuthToken d)]
            ((session st)(session_token fi \<mapsto> a, session_expiry fi \<mapsto> JInt (now w + n),
                          session_refresh fi \<mapsto> r)) = (hr, s2) \<longrightarrow>
            token (AuthToken d) = a \<and>
            refresh_token (AuthToken d) = r \<and>
            expires_in (AuthToken d) = JInt n \<and>
            handler_calls (trace (snd (autologin fi w rq st))) =
              handler_calls (trace st) @
                [([HTok (AuthToken d)],
                  ((session st)(session_token fi \<mapsto> a, session_expiry fi \<mapsto> JInt (now w + n),
                                session_refresh fi \<mapsto> r)))] \<and>
            (fst (autologin fi w rq st), session (snd (autologin fi w rq st)),
             session_writes (trace (snd (autologin fi w rq st)))) =
              (case hr of
                 Inl e \<Rightarrow> (Raised e, s2, session_writes (trace st) @
                      [session_token fi, session_expiry fi, session_refresh fi])
               | Inr res \<Rightarrow>
                   (case s2 (session_rd fi) of
                      None \<Rightarrow> (Returned res, s2, session_writes (trace st) @
                      [session_token fi, session_expiry fi, session_refresh fi])
                    | Some u \<Rightarrow>
                        if truthy u
                        then (Redirect u, s2(session_rd fi := None),
                              session_writes (trace st) @
                              [session_token fi, session_expiry fi, session_refresh fi,
                               session_rd fi])
                        else (Returned res, s2, session_writes (trace st) @
                      [session_token fi, session_expiry fi, session_refresh fi]))))"
proof -
  define st1 where "st1 = (if truthy (session_get st (session_token fi))
    then emit (EvCheck (session_get st (session_token fi))) st else st)"
  define st2 where
    "st2 = emit (EvPost (baseurl fi @ ''/token'') (exchange_data fi c) exchange_headers) st1"
  have one: "posts (trace (snd (autologin fi w rq st))) =
               posts (trace st) @
                 [(baseurl fi @ ''/token'',
                   [(''code'', c), (''client_id'', client_id fi), (''client_secret'', secret fi),
                    (''grant_type'', ''authorization_code'')],
                   [(''Content-Type'', ''application/x-www-form-urlencoded'')])]"
    using novalid code
    by (auto simp: autologin_def Let_def split_def run_simps invoke_then_rd_other obs_append
        exchange_data_def exchange_headers_def
        split: sum.split option.split post_result.split)
  have two: "token (AuthToken d) = a \<and>
             refresh_token (AuthToken d) = r \<and>
             expires_in (AuthToken d) = JInt n \<and>
             handler_calls (trace (snd (autologin fi w rq st))) =
               handler_calls (trace st) @
                 [([HTok (AuthToken d)],
                   ((session st)(session_token fi \<mapsto> a, session_expiry fi \<mapsto> JInt (now w + n),
                                 session_refresh fi \<mapsto> r)))] \<and>
             (fst (autologin fi w rq st), session (snd (autologin fi w rq st)),
              session_writes (trace (snd (autologin fi w rq st)))) =
               (case hr of
                  Inl e \<Rightarrow> (Raised e, s2, session_writes (trace st) @
                       [session_token fi, session_expiry fi, session_refresh fi])
                | Inr res \<Rightarrow>
                    (case s2 (session_rd fi) of
                       None \<Rightarrow> (Returned res, s2, session_writes (trace st) @
                       [session_token fi, session_expiry fi, session_refresh fi])
                     | Some u \<Rightarrow>
                         if truthy u
                         then (Redirect u, s2(session_rd fi := None),
                               session_writes (trace st) @
                               [session_token fi, session_expiry fi, session_refresh fi,
                                session_rd fi])
                         else (Returned res, s2, session_writes (trace st) @
                       [session_token fi, session_expiry fi, session_refresh fi])))"
    if post: "http_post w (baseurl fi @ ''/token'')
                 [(''code'', c), (''client_id'', client_id fi), (''client_secret'', secret fi),
                  (''grant_type'', ''authorization_code'')]
                 [(''Content-Type'', ''application/x-www-form-urlencoded'')] = Inr resp"
      and ok: "status resp = 200" "json resp = Inr (PDict d)"
      and fields: "map_of d ''access_token'' = Some a" "map_of d ''refresh_token'' = Some r"
        "map_of d ''expires_in'' = Some (JInt n)"
      and run: "route_function w [HTok (AuthToken d)]
                  ((session st)(session_token fi \<mapsto> a, session_expiry fi \<mapsto> JInt (now w + n),
                                session_refresh fi \<mapsto> r)) = (hr, s2)"
  proof -
    have tk: "token (AuthToken d) = a" "refresh_token (AuthToken d) = r"
      "expires_in (AuthToken d) = JInt n"
      using fields by (simp_all add: AuthToken_def dict_get_def)
    define st3 where "st3 = session_set (session_refresh fi) r
                   (session_set (session_expiry fi) (JInt (now w + n))
                     (session_set (session_token fi) a st2))"
    have post': "http_post w (baseurl fi @ ''/token'') (exchange_data fi c) exchange_headers =
        Inr resp"
      using post by (simp add: exchange_data_def exchange_headers_def)
    have eq: "autologin fi w rq st = invoke_then_rd fi w (HTok (AuthToken d)) st3"
      using novalid code post' ok tk
      by (auto simp: autologin_def Let_def split_def run_simps st1_def st2_def st3_def)
    have s3: "session st3 =
      ((session st)(session_token fi \<mapsto> a, session_expiry fi \<mapsto> JInt (now w + n),
                    session_refresh fi \<mapsto> r))"
      "session_writes (trace st3) = session_writes (trace st) @
         [session_token fi, session_expiry fi, session_refresh fi]"
      "handler_calls (trace st3) = handler_calls (trace st)"
      by (simp_all add: st3_def st2_def st1_def obs_append)
    from run s3 have run': "route_function w [HTok (AuthToken d)] (session st3) = (hr, s2)"
      by simp
    show ?thesis
      unfolding eq using invoke_then_rd_run [OF run', of fi] tk
      by (simp add: invoke_then_rd_calls s3 split: sum.split option.split)
  qed
  from one two show ?thesis by blast
qed

text \<open>
  The spec's scenario: an empty session, \<open>code=abc123\<close>, a 200 answer carrying
  \<open>T\<close>, \<open>R\<close> and 3600 at clock reading 1000.
\<close>

theorem autologin_code_exchange_persists_witness:
  "\<not> truthy (session_get state_empty (session_token example_fi)) \<and>
   args_code request_code = Some ''abc123'' \<and>
   ''abc123'' \<noteq> [] \<and>
   http_post example_world (baseurl example_fi @ ''/token'')
     [(''code'', ''abc123''), (''client_id'', client_id example_fi), (''client_secret'',
       secret example_fi),
      (''grant_type'', ''authorization_code'')]
     [(''Content-Type'', ''application/x-www-form-urlencoded'')] = Inr \<lparr>status = 200, json =
       Inr (PDict example_response)\<rparr> \<and>
   status \<lparr>status = 200, json = Inr (PDict example_response)\<rparr> = 200 \<and>
   json \<lparr>status = 200, json = Inr (PDict example_response)\<rparr> = Inr (PDict example_response) \<and>
   map_of example_response ''access_token'' = Some (JStr ''T'') \<and>
   map_of example_response ''refresh_token'' = Some (JStr ''R'') \<and>
   map_of example_response ''expires_in'' = Some (JInt 3600) \<and>
   route_function example_world [HTok (AuthToken example_response)]
     ((session state_empty)(session_token example_fi \<mapsto> (JStr ''T''),
       session_expiry example_fi \<mapsto> JInt (now example_world + 3600),
                   session_refresh example_fi \<mapsto> (JStr ''R''))) =
                     ((Inr ''page''),
                       ((session state_empty)(session_token example_fi \<mapsto> (JStr ''T''),
                         session_expiry example_fi \<mapsto> JInt (now example_world + 3600),
                 session_refresh example_fi \<mapsto> (JStr ''R'')))) \<and>
   posts (trace (snd (autologin example_fi example_world request_code state_empty))) =
     posts (trace state_empty) @
       [(baseurl example_fi @ ''/token'',
         [(''code'', ''abc123''), (''client_id'', client_id example_fi), (''client_secret'',
           secret example_fi),
          (''grant_type'', ''authorization_code'')],
         [(''Content-Type'', ''application/x-www-form-urlencoded'')])] \<and>
   token (AuthToken example_response) = (JStr ''T'') \<and>
   refresh_token (AuthToken example_response) = (JStr ''R'') \<and>
   expires_in (AuthToken example_response) = JInt 3600 \<and>
   handler_calls (trace (snd (autologin example_fi example_world request_code state_empty))) =
     handler_calls (trace state_empty) @
       [([HTok (AuthToken example_response)],
         ((session state_empty)(session_token example_fi \<mapsto> (JStr ''T''),
           session_expiry example_fi \<mapsto> JInt (now example_world + 3600),
                       session_refresh example_fi \<mapsto> (JStr ''R''))))] \<and>
   (fst (autologin example_fi example_world request_code state_empty),
     session (snd (autologin example_fi example_world request_code state_empty)),
    session_writes (trace (snd (autologin example_fi example_world request_code state_empty)))) =
     (case (Inr ''page'') of
        Inl e \<Rightarrow> (Raised e, ((session state_empty)(session_token example_fi \<mapsto> (JStr ''T''),
          session_expiry example_fi \<mapsto> JInt (now example_world + 3600),
                 session_refresh example_fi \<mapsto> (JStr ''R''))), session_writes (trace state_empty) @
             [session_token example_fi, session_expiry example_fi, session_refresh example_fi])
      | Inr res \<Rightarrow>
          (case ((session state_empty)(session_token example_fi \<mapsto> (JStr ''T''),
            session_expiry example_fi \<mapsto> JInt (now example_world + 3600),
                 session_refresh example_fi \<mapsto> (JStr ''R''))) (session_rd example_fi) of
             None \<Rightarrow> (Returned res, ((session state_empty)(session_token example_fi \<mapsto> (JStr ''T''),
               session_expiry example_fi \<mapsto> JInt (now example_world + 3600),
                 session_refresh example_fi \<mapsto> (JStr ''R''))), session_writes (trace state_empty) @
             [session_token example_fi, session_expiry example_fi, session_refresh example_fi])
           | Some u \<Rightarrow>
               if truthy u
               then (Redirect u, ((session state_empty)(session_token example_fi \<mapsto> (JStr ''T''),
                 session_expiry example_fi \<mapsto> JInt (now example_world + 3600),
                 session_refresh example_fi \<mapsto> (JStr ''R'')))(session_rd example_fi := None),
                     session_writes (trace state_empty) @
                     [session_token example_fi, session_expiry example_fi,
                       session_refresh example_fi,
                      session_rd example_fi])
               else (Returned res, ((session state_empty)(session_token example_fi \<mapsto> (JStr ''T''),
                 session_expiry example_fi \<mapsto> JInt (now example_world + 3600),
                 session_refresh example_fi \<mapsto> (JStr ''R''))), session_writes (trace state_empty) @
             [session_token example_fi, session_expiry example_fi, session_refresh example_fi]))) \<and>
   fst (autologin example_fi example_world request_code state_empty) = Returned ''page'' \<and>
   session (snd (autologin example_fi example_world request_code state_empty)) =
     [''cardboard_token'' \<mapsto> JStr ''T'', ''cardboard_expiry'' \<mapsto> JInt 4600,
      ''cardboard_refresh'' \<mapsto> JStr ''R''] \<and>
   session_writes (trace (snd (autologin example_fi example_world request_code state_empty))) =
     [''cardboard_token'', ''cardboard_expiry'', ''cardboard_refresh'']"
proof -
  have a1: "\<not> truthy (session_get state_empty (session_token example_fi))"
    by (simp add: example_defs)
  have a2: "args_code request_code = Some ''abc123''"
    by (simp add: example_defs)
  have a3: "''abc123'' \<noteq> []"
    by simp
  have b1: "http_post example_world (baseurl example_fi @ ''/token'')
      [(''code'', ''abc123''), (''client_id'', client_id example_fi), (''client_secret'',
        secret example_fi),
       (''grant_type'', ''authorization_code'')]
      [(''Content-Type'', ''application/x-www-form-urlencoded'')] = Inr \<lparr>status = 200, json =
        Inr (PDict example_response)\<rparr>"
    by (simp add: example_defs)
  have b2: "status \<lparr>status = 200, json = Inr (PDict example_response)\<rparr> = 200"
    by (simp add: example_defs)
  have b3: "json \<lparr>status = 200, json = Inr (PDict example_response)\<rparr> = Inr (PDict example_response)"
    by (simp add: example_defs)
  have b4: "map_of example_response ''access_token'' = Some (JStr ''T'')"
    by (simp add: example_defs)
  have b5: "map_of example_response ''refresh_token'' = Some (JStr ''R'')"
    by (simp add: example_defs)
  have b6: "map_of example_response ''expires_in'' = Some (JInt 3600)"
    by (simp add: example_defs)
  have b7: "route_function example_world [HTok (AuthToken example_response)]
      ((session state_empty)(session_token example_fi \<mapsto> (JStr ''T''),
        session_expiry example_fi \<mapsto> JInt (now example_world + 3600),
                    session_refresh example_fi \<mapsto> (JStr ''R''))) =
                      ((Inr ''page''),
                        ((session state_empty)(session_token example_fi \<mapsto> (JStr ''T''),
                          session_expiry example_fi \<mapsto> JInt (now example_world + 3600),
                  session_refresh example_fi \<mapsto> (JStr ''R''))))"
    by (simp add: example_defs)
  have p1: "\<not> truthy (session_get state_empty (session_token example_fi)) \<or>
    cbsync_check_token example_world (session_get state_empty (session_token example_fi)) =
      Inr False"
    using a1 by blast
  note t = autologin_code_exchange_persists
    [where resp = "\<lparr>status = 200, json = Inr (PDict example_response)\<rparr>"
       and d = example_response and a = "JStr ''T''" and r = "JStr ''R''" and n = 3600
       and hr = "Inr ''page''"
       and ?s2.0 = "((session state_empty)(session_token example_fi \<mapsto> (JStr ''T''),
         session_expiry example_fi \<mapsto> JInt (now example_world + 3600),
                        session_refresh example_fi \<mapsto> (JStr ''R'')))", OF p1 a2 a3]
  from t b1 b2 b3 b4 b5 b6 b7 have c: "token (AuthToken example_response) = (JStr ''T'') \<and>
    refresh_token (AuthToken example_response) = (JStr ''R'') \<and>
    expires_in (AuthToken example_response) = JInt 3600 \<and>
    handler_calls (trace (snd (autologin example_fi example_world request_code state_empty))) =
      handler_calls (trace state_empty) @
        [([HTok (AuthToken example_response)],
          ((session state_empty)(session_token example_fi \<mapsto> (JStr ''T''),
            session_expiry example_fi \<mapsto> JInt (now example_world + 3600),
                        session_refresh example_fi \<mapsto> (JStr ''R''))))] \<and>
    (fst (autologin example_fi example_world request_code state_empty),
      session (snd (autologin example_fi example_world request_code state_empty)),
     session_writes (trace (snd (autologin example_fi example_world request_code state_empty)))) =
      (case (Inr ''page'') of
         Inl e \<Rightarrow> (Raised e, ((session state_empty)(session_token example_fi \<mapsto> (JStr ''T''),
           session_expiry example_fi \<mapsto> JInt (now example_world + 3600),
                  session_refresh example_fi \<mapsto> (JStr ''R''))), session_writes (trace state_empty) @
              [session_token example_fi, session_expiry example_fi, session_refresh example_fi])
       | Inr res \<Rightarrow>
           (case ((session state_empty)(session_token example_fi \<mapsto> (JStr ''T''),
             session_expiry example_fi \<mapsto> JInt (now example_world + 3600),
                  session_refresh example_fi \<mapsto> (JStr ''R''))) (session_rd example_fi) of
              None \<Rightarrow> (Returned res,
                ((session state_empty)(session_token example_fi \<mapsto> (JStr ''T''),
                  session_expiry example_fi \<mapsto> JInt (now example_world + 3600),
                  session_refresh example_fi \<mapsto> (JStr ''R''))), session_writes (trace state_empty) @
              [session_token example_fi, session_expiry example_fi, session_refresh example_fi])
            | Some u \<Rightarrow>
                if truthy u
                then (Redirect u, ((session state_empty)(session_token example_fi \<mapsto> (JStr ''T''),
                  session_expiry example_fi \<mapsto> JInt (now example_world + 3600),
                  session_refresh example_fi \<mapsto> (JStr ''R'')))(session_rd example_fi := None),
                      session_writes (trace state_empty) @
                      [session_token example_fi, session_expiry example_fi,
                        session_refresh example_fi,
                       session_rd example_fi])
                else (Returned res,
                  ((session state_empty)(session_token example_fi \<mapsto> (JStr ''T''),
                    session_expiry example_fi \<mapsto> JInt (now example_world + 3600),
                  session_refresh example_fi \<mapsto> (JStr ''R''))), session_writes (trace state_empty) @
              [session_token example_fi, session_expiry example_fi, session_refresh example_fi])))"
    by blast
  from c have e1: "fst (autologin example_fi example_world request_code state_empty) =
    Returned ''page''"
    by (simp add: example_defs)
  from c have e2: "session (snd (autologin example_fi example_world request_code state_empty)) =
      [''cardboard_token'' \<mapsto> JStr ''T'', ''cardboard_expiry'' \<mapsto> JInt 4600,
       ''cardboard_refresh'' \<mapsto> JStr ''R'']"
    by (simp add: example_defs)
  from c have e3: "session_writes (trace (snd
    (autologin example_fi example_world request_code state_empty))) =
      [''cardboard_token'', ''cardboard_expiry'', ''cardboard_refresh'']"
    by (simp add: example_defs)
  from t c e1 e2 e3 a1 a2 a3 b1 b2 b3 b4 b5 b6 b7 show ?thesis by blast
qed

text \<open>
  Claim C1, amended. The decorators do not refresh an expired token. What \<open>autologin\<close>
  and \<open>logged_in\<close> do is this: when the stored token passes the validity check, the
  session holds no expiry, and it holds a refresh token that the refresh-token exchange
  accepts, the decorator makes one refresh-token exchange with the stored refresh token
  and invokes the wrapped handler, once, with the token so obtained. It does not update
  the session's token, refresh or expiry fields: the handler runs on the stored session
  unchanged, the final session is the one the handler leaves (less a consumed \<open>rd\<close> key
  in \<open>autologin\<close>, the only session write either decorator makes here), and the response
  follows from what the handler returns.
\<close>

theorem refresh_branch_passes_new_token:
  assumes "truthy (session_get st (session_token fi))"
    and "cbsync_check_token w (session_get st (session_token fi)) = Inr True"
    and "\<not> truthy (session_get st (session_expiry fi))"
    and "truthy (session_get st (session_refresh fi))"
    and "cb_refresh_token w (session_get st (session_refresh fi)) = Inr t"
    and run: "route_function w [HTok t] (session st) = (hr, s2)"
  shows "refreshes (trace (snd (autologin fi w rq st))) =
           refreshes (trace st) @ [session_get st (session_refresh fi)] \<and>
         handler_calls (trace (snd (autologin fi w rq st))) =
           handler_calls (trace st) @ [([HTok t], session st)] \<and>
         (fst (autologin fi w rq st), session (snd (autologin fi w rq st)),
          session_writes (trace (snd (autologin fi w rq st)))) =
           (case hr of
              Inl e \<Rightarrow> (Raised e, s2, session_writes (trace st))
            | Inr res \<Rightarrow>
                (case s2 (session_rd fi) of
                   None \<Rightarrow> (Returned res, s2, session_writes (trace st))
                 | Some u \<Rightarrow>
                     if truthy u
                     then (Redirect u, s2(session_rd fi := None),
                           session_writes (trace st) @ [session_rd fi])
                     else (Returned res, s2, session_writes (trace st)))) \<and>
         refreshes (trace (snd (logged_in fi w rq st))) =
           refreshes (trace st) @ [session_get st (session_refresh fi)] \<and>
         handler_calls (trace (snd (logged_in fi w rq st))) =
           handler_calls (trace st) @ [([HTok t], session st)] \<and>
         (fst (logged_in fi w rq st), session (snd (logged_in fi w rq st)),
          session_writes (trace (snd (logged_in fi w rq st)))) =
           (case hr of
              Inl e \<Rightarrow> (Raised e, s2, session_writes (trace st))
            | Inr res \<Rightarrow> (Returned res, s2, session_writes (trace st)))"
proof -
  define st2 where "st2 = emit (EvRefresh (session_get st (session_refresh fi)))
    (emit (EvCheck (session_get st (session_token fi))) st)"
  have s2: "session st2 = session st" "session_writes (trace st2) = session_writes (trace st)"
    "handler_calls (trace st2) = handler_calls (trace st)"
    "refreshes (trace st2) = refreshes (trace st) @ [session_get st (session_refresh fi)]"
    by (simp_all add: st2_def obs_append)
  from run s2 have run': "route_function w [HTok t] (session st2) = (hr, s2)"
    by simp
  have a: "autologin fi w rq st = invoke_then_rd fi w (HTok t) st2"
    using assms by (simp add: autologin_def Let_def split_def run_simps st2_def)
  have l: "logged_in fi w rq st = invoke w [HTok t] st2"
    using assms by (simp add: logged_in_def Let_def split_def run_simps st2_def)
  have A: "refreshes (trace (snd (autologin fi w rq st))) =
             refreshes (trace st) @ [session_get st (session_refresh fi)] \<and>
           handler_calls (trace (snd (autologin fi w rq st))) =
             handler_calls (trace st) @ [([HTok t], session st)] \<and>
           (fst (autologin fi w rq st), session (snd (autologin fi w rq st)),
            session_writes (trace (snd (autologin fi w rq st)))) =
             (case hr of
                Inl e \<Rightarrow> (Raised e, s2, session_writes (trace st))
              | Inr res \<Rightarrow>
                  (case s2 (session_rd fi) of
                     None \<Rightarrow> (Returned res, s2, session_writes (trace st))
                   | Some u \<Rightarrow>
                       if truthy u
                       then (Redirect u, s2(session_rd fi := None),
                             session_writes (trace st) @ [session_rd fi])
                       else (Returned res, s2, session_writes (trace st))))"
    unfolding a using invoke_then_rd_run [OF run', of fi]
    by (simp add: invoke_then_rd_calls invoke_then_rd_other s2 split: sum.split option.split)
  have L: "refreshes (trace (snd (logged_in fi w rq st))) =
             refreshes (trace st) @ [session_get st (session_refresh fi)] \<and>
           handler_calls (trace (snd (logged_in fi w rq st))) =
             handler_calls (trace st) @ [([HTok t], session st)] \<and>
           (fst (logged_in fi w rq st), session (snd (logged_in fi w rq st)),
            session_writes (trace (snd (logged_in fi w rq st)))) =
             (case hr of
                Inl e \<Rightarrow> (Raised e, s2, session_writes (trace st))
              | Inr res \<Rightarrow> (Returned res, s2, session_writes (trace st)))"
    unfolding l using run'
    by (simp add: fst_invoke snd_invoke s2 obs_append split: sum.split)
  from A L show ?thesis by blast
qed

theorem refresh_branch_passes_new_token_witness:
  "truthy (session_get state_refresh_only (session_token example_fi)) \<and>
   cbsync_check_token example_world (session_get state_refresh_only (session_token example_fi)) =
     Inr True \<and>
   \<not> truthy (session_get state_refresh_only (session_expiry example_fi)) \<and>
   truthy (session_get state_refresh_only (session_refresh example_fi)) \<and>
   cb_refresh_token example_world (session_get state_refresh_only (session_refresh example_fi)) =
     Inr example_refreshed \<and>
   route_function example_world [HTok example_refreshed] (session state_refresh_only) =
     ((Inr ''page''), (session state_refresh_only)) \<and>
   refreshes (trace (snd (autologin example_fi example_world request_plain state_refresh_only))) =
     refreshes (trace state_refresh_only) @
       [session_get state_refresh_only (session_refresh example_fi)] \<and>
   handler_calls (trace (snd
     (autologin example_fi example_world request_plain state_refresh_only))) =
     handler_calls (trace state_refresh_only) @ [([HTok example_refreshed],
       session state_refresh_only)] \<and>
   (fst (autologin example_fi example_world request_plain state_refresh_only),
     session (snd (autologin example_fi example_world request_plain state_refresh_only)),
    session_writes (trace (snd
      (autologin example_fi example_world request_plain state_refresh_only)))) =
     (case (Inr ''page'') of
        Inl e \<Rightarrow> (Raised e, (session state_refresh_only), session_writes (trace state_refresh_only))
      | Inr res \<Rightarrow>
          (case (session state_refresh_only) (session_rd example_fi) of
             None \<Rightarrow> (Returned res, (session state_refresh_only),
               session_writes (trace state_refresh_only))
           | Some u \<Rightarrow>
               if truthy u
               then (Redirect u, (session state_refresh_only)(session_rd example_fi := None),
                     session_writes (trace state_refresh_only) @ [session_rd example_fi])
               else (Returned res, (session state_refresh_only),
                 session_writes (trace state_refresh_only)))) \<and>
   refreshes (trace (snd (logged_in example_fi example_world request_plain state_refresh_only))) =
     refreshes (trace state_refresh_only) @
       [session_get state_refresh_only (session_refresh example_fi)] \<and>
   handler_calls (trace (snd
     (logged_in example_fi example_world request_plain state_refresh_only))) =
     handler_calls (trace state_refresh_only) @ [([HTok example_refreshed],
       session state_refresh_only)] \<and>
   (fst (logged_in example_fi example_world request_plain state_refresh_only),
     session (snd (logged_in example_fi example_world request_plain state_refresh_only)),
    session_writes (trace (snd
      (logged_in example_fi example_world request_plain state_refresh_only)))) =
     (case (Inr ''page'') of
        Inl e \<Rightarrow> (Raised e, (session state_refresh_only), session_writes (trace state_refresh_only))
      | Inr res \<Rightarrow> (Returned res, (session state_refresh_only),
        session_writes (trace state_refresh_only)))"
proof -
  have a1: "truthy (session_get state_refresh_only (session_token example_fi))"
    by (simp add: example_defs)
  have a2: "cbsync_check_token example_world (session_get state_refresh_only
    (session_token example_fi)) = Inr True"
    by (simp add: example_defs)
  have a3: "\<not> truthy (session_get state_refresh_only (session_expiry example_fi))"
    by (simp add: example_defs)
  have a4: "truthy (session_get state_refresh_only (session_refresh example_fi))"
    by (simp add: example_defs)
  have a5: "cb_refresh_token example_world (session_get state_refresh_only
    (session_refresh example_fi)) = Inr example_refreshed"
    by (simp add: example_defs)
  have a6: "route_function example_world [HTok example_refreshed] (session state_refresh_only) =
    ((Inr ''page''), (session state_refresh_only))"
    by (simp add: example_defs)
  note t = refresh_branch_passes_new_token [where rq = request_plain, OF a1 a2 a3 a4 a5 a6]
  from t a1 a2 a3 a4 a5 a6 show ?thesis by blast
qed

text \<open>
  Counterexample to C1 as stated, under each reading of "expired". A stored token the
  provider rejects, beside a valid refresh token: both decorators redirect to the login
  URL without a refresh exchange and without invoking the handler. A stored token the
  provider accepts beside an expiry in the past: the handler receives a token rebuilt
  from the session, with a negative \<open>expires_in\<close>, and no refresh exchange is made. And
  where the refresh exchange is made, the session is left as it was.
\<close>

theorem expired_token_not_refreshed_counterexample:
  "cbsync_check_token example_world (JStr ''old'') = Inr False \<and>
   cb_refresh_token example_world (JStr ''R'') = Inr example_refreshed \<and>
   autologin example_fi example_world request_plain state_expired =
     (Redirect (JStr ''https://app.test/login''),
      \<lparr>session = session state_expired, trace = [EvCheck (JStr ''old'')]\<rparr>) \<and>
   logged_in example_fi example_world request_plain state_expired =
     (Redirect (JStr ''https://app.test/login''),
      \<lparr>session = (session state_expired)(''cardboard_rd'' \<mapsto> JStr ''https://site.test/dashboard''),
       trace = [EvCheck (JStr ''old''),
                EvSet ''cardboard_rd'' (JStr ''https://site.test/dashboard'')]\<rparr>) \<and>
   trace (snd (autologin example_fi example_world request_plain state_past_expiry)) =
     [EvCheck (JStr ''good''),
      EvCall [HTok \<lparr>token = JStr ''good'', refresh_token = JStr ''R'',
                    expires_in = JInt (- 100), token_type = JStr ''Bearer''\<rparr>]
        (session state_past_expiry)] \<and>
   session (snd (autologin example_fi example_world request_plain state_past_expiry)) =
     session state_past_expiry \<and>
   trace (snd (autologin example_fi example_world request_plain state_refresh_only)) =
     [EvCheck (JStr ''good''), EvRefresh (JStr ''R''),
      EvCall [HTok example_refreshed] (session state_refresh_only)] \<and>
   session (snd (autologin example_fi example_world request_plain state_refresh_only)) =
     session state_refresh_only \<and>
   session (snd (logged_in example_fi example_world request_plain state_refresh_only)) =
     session state_refresh_only"
  by (simp add: example_defs eval_defs autologin_def logged_in_def)

text \<open>
  Claim C8. \<open>_constructAuthToken(token, expiry, refresh)\<close> builds its token from a data
  dict whose \<open>expires_in\<close> is the stored absolute expiry minus the clock reading, and
  persisting stores the clock reading plus the token's \<open>expires_in\<close> as expiry. So, at
  one clock reading and for a token with an integer \<open>expires_in\<close>, persisting succeeds,
  and rebuilding a token from the three persisted session fields gives the same access
  token, the same refresh token and the same \<open>expires_in\<close>, hence the same absolute
  expiry: persisting the rebuilt token leaves the session as it is.
\<close>

theorem persist_construct_roundtrip:
  assumes "expires_in t = JInt n"
  shows "fst (persist fi w t st) = None \<and>
         session (snd (persist fi w t st)) (session_expiry fi) = Some (JInt (now w + n)) \<and>
         constructAuthToken w
            (session_get (snd (persist fi w t st)) (session_token fi))
            (session_get (snd (persist fi w t st)) (session_expiry fi))
            (session_get (snd (persist fi w t st)) (session_refresh fi)) =
           Inr \<lparr>token = token t, refresh_token = refresh_token t, expires_in = JInt n,
                 token_type = JStr ''Bearer''\<rparr> \<and>
         session (snd (persist fi w
             \<lparr>token = token t, refresh_token = refresh_token t, expires_in = JInt n,
               token_type = JStr ''Bearer''\<rparr>
             (snd (persist fi w t st)))) = session (snd (persist fi w t st)) \<and>
         constructAuthToken w tok (JInt e) r =
           Inr \<lparr>token = tok, refresh_token = r, expires_in = JInt (e - now w),
                 token_type = JStr ''Bearer''\<rparr>"
  using assms keys_distinct [of fi]
  by (simp add: run_simps session_get_def constructAuthToken_def AuthToken_def dict_get_def
      fun_upd_twist)

theorem persist_construct_roundtrip_witness:
  "expires_in (AuthToken example_response) = JInt 3600 \<and>
   fst (persist example_fi example_world (AuthToken example_response) state_empty) = None \<and>
   session (snd (persist example_fi example_world (AuthToken example_response) state_empty))
     (session_expiry example_fi) = Some (JInt (now example_world + 3600)) \<and>
   constructAuthToken example_world
      (session_get (snd (persist example_fi example_world
        (AuthToken example_response) state_empty)) (session_token example_fi))
      (session_get (snd (persist example_fi example_world
        (AuthToken example_response) state_empty)) (session_expiry example_fi))
      (session_get (snd (persist example_fi example_world
        (AuthToken example_response) state_empty)) (session_refresh example_fi)) =
     Inr \<lparr>token = token (AuthToken example_response), refresh_token =
       refresh_token (AuthToken example_response), expires_in = JInt 3600,
           token_type = JStr ''Bearer''\<rparr> \<and>
   session (snd (persist example_fi example_world
       \<lparr>token = token (AuthToken example_response), refresh_token =
         refresh_token (AuthToken example_response), expires_in = JInt 3600,
         token_type = JStr ''Bearer''\<rparr>
       (snd (persist example_fi example_world (AuthToken example_response) state_empty)))) =
         session (snd (persist example_fi example_world (AuthToken example_response) state_empty)) \<and>
   constructAuthToken example_world (JStr ''T'') (JInt 4600) (JStr ''R'') =
     Inr \<lparr>token = (JStr ''T''), refresh_token = (JStr ''R''), expires_in =
       JInt (4600 - now example_world),
           token_type = JStr ''Bearer''\<rparr>"
proof -
  have a1: "expires_in (AuthToken example_response) = JInt 3600"
    by (simp add: example_defs AuthToken_def dict_get_def)
  note t = persist_construct_roundtrip
    [where fi = example_fi and w = example_world and st = state_empty
       and tok = "JStr ''T''" and e = 4600 and r = "JStr ''R''", OF a1]
  from t a1 show ?thesis by blast
qed

text \<open>
  Claim C9. \<open>logged_in\<close> never writes or removes the session's token, refresh or expiry
  keys: every session write the decorator makes is to the \<open>rd\<close> key, which differs from
  the other three. When the handler is not invoked the final session agrees with the
  request's session on every key but \<open>rd\<close>; when it is invoked, it sees the request's
  session unchanged and the final session is the one it leaves. In particular, in the
  refresh-only branch the token obtained from the refresh-token exchange is passed to
  the handler and the decorator writes nothing to the session.
\<close>

theorem logged_in_session_frame:
  "set (session_writes (trace (snd (logged_in fi w rq st)))) \<subseteq>
     set (session_writes (trace st)) \<union> {session_rd fi} \<and>
   session_rd fi \<notin> {session_token fi, session_refresh fi, session_expiry fi} \<and>
   ((handler_calls (trace (snd (logged_in fi w rq st))) = handler_calls (trace st) \<and>
      (\<forall>k. k \<noteq> session_rd fi \<longrightarrow> session (snd (logged_in fi w rq st)) k = session st k)) \<or>
    (\<exists>a. handler_calls (trace (snd (logged_in fi w rq st))) =
            handler_calls (trace st) @ [([a], session st)] \<and>
          session (snd (logged_in fi w rq st)) = snd (route_function w [a] (session st)))) \<and>
   (truthy (session_get st (session_token fi)) \<and>
    cbsync_check_token w (session_get st (session_token fi)) = Inr True \<and>
    \<not> truthy (session_get st (session_expiry fi)) \<and>
    truthy (session_get st (session_refresh fi)) \<and>
    cb_refresh_token w (session_get st (session_refresh fi)) = Inr t \<longrightarrow>
    handler_calls (trace (snd (logged_in fi w rq st))) =
      handler_calls (trace st) @ [([HTok t], session st)] \<and>
    session_writes (trace (snd (logged_in fi w rq st))) = session_writes (trace st) \<and>
    session (snd (logged_in fi w rq st)) = snd (route_function w [HTok t] (session st)))"
proof -
  have A: "set (session_writes (trace (snd (logged_in fi w rq st)))) \<subseteq>
             set (session_writes (trace st)) \<union> {session_rd fi}"
    by (simp add: logged_in_def invoke_def Let_def split_def run_simps fst_call_handler snd_call_handler
        obs_append subset_insertI split: sum.split)
  have B: "session_rd fi \<notin> {session_token fi, session_refresh fi, session_expiry fi}"
    using keys_distinct [of fi] by auto
  have C: "(handler_calls (trace (snd (logged_in fi w rq st))) = handler_calls (trace st) \<and>
             (\<forall>k. k \<noteq> session_rd fi \<longrightarrow> session (snd (logged_in fi w rq st)) k = session st k)) \<or>
           (\<exists>a. handler_calls (trace (snd (logged_in fi w rq st))) =
                   handler_calls (trace st) @ [([a], session st)] \<and>
                 session (snd (logged_in fi w rq st)) = snd (route_function w [a] (session st)))"
    by (simp add: logged_in_def invoke_def Let_def split_def run_simps fst_call_handler snd_call_handler
        obs_append split: sum.split)
  have D: "truthy (session_get st (session_token fi)) \<and>
           cbsync_check_token w (session_get st (session_token fi)) = Inr True \<and>
           \<not> truthy (session_get st (session_expiry fi)) \<and>
           truthy (session_get st (session_refresh fi)) \<and>
           cb_refresh_token w (session_get st (session_refresh fi)) = Inr t \<longrightarrow>
           handler_calls (trace (snd (logged_in fi w rq st))) =
             handler_calls (trace st) @ [([HTok t], session st)] \<and>
           session_writes (trace (snd (logged_in fi w rq st))) = session_writes (trace st) \<and>
           session (snd (logged_in fi w rq st)) = snd (route_function w [HTok t] (session st))"
    by (simp add: logged_in_def invoke_def Let_def split_def run_simps fst_call_handler snd_call_handler
        obs_append split: sum.split)
  from A B C D show ?thesis by blast
qed

theorem logged_in_session_frame_witness:
  "truthy (session_get state_refresh_only (session_token example_fi)) \<and>
   cbsync_check_token example_world (session_get state_refresh_only (session_token example_fi)) =
     Inr True \<and>
   \<not> truthy (session_get state_refresh_only (session_expiry example_fi)) \<and>
   truthy (session_get state_refresh_only (session_refresh example_fi)) \<and>
   cb_refresh_token example_world (session_get state_refresh_only (session_refresh example_fi)) =
     Inr example_refreshed \<and>
   set (session_writes (trace (snd
     (logged_in example_fi example_world request_plain state_refresh_only)))) \<subseteq>
     set (session_writes (trace state_refresh_only)) \<union> {session_rd example_fi} \<and>
   session_rd example_fi \<notin> {session_token example_fi, session_refresh example_fi,
     session_expiry example_fi} \<and>
   handler_calls (trace (snd
     (logged_in example_fi example_world request_plain state_refresh_only))) =
     handler_calls (trace state_refresh_only) @ [([HTok example_refreshed],
       session state_refresh_only)] \<and>
   session_writes (trace (snd
     (logged_in example_fi example_world request_plain state_refresh_only))) =
       session_writes (trace state_refresh_only) \<and>
   session (snd (logged_in example_fi example_world request_plain state_refresh_only)) =
     snd (route_function example_world [HTok example_refreshed] (session state_refresh_only))"
proof -
  have a1: "truthy (session_get state_refresh_only (session_token example_fi))"
    by (simp add: example_defs)
  have a2: "cbsync_check_token example_world (session_get state_refresh_only
    (session_token example_fi)) = Inr True"
    by (simp add: example_defs)
  have a3: "\<not> truthy (session_get state_refresh_only (session_expiry example_fi))"
    by (simp add: example_defs)
  have a4: "truthy (session_get state_refresh_only (session_refresh example_fi))"
    by (simp add: example_defs)
  have a5: "cb_refresh_token example_world (session_get state_refresh_only
    (session_refresh example_fi)) = Inr example_refreshed"
    by (simp add: example_defs)
  note t = logged_in_session_frame
    [where fi = example_fi and w = example_world and rq = request_plain
       and st = state_refresh_only and t = example_refreshed]
  from t a1 a2 a3 a4 a5 show ?thesis by blast
qed

text \<open>
  Claim C10, amended. The claim says the handler is always invoked; it is not when the
  exchange itself raises. On a \<open>login_autoexchange\<close> request with no valid stored token
  the decorator never redirects and writes no session state. With no authorization code,
  or with a code whose exchange is answered by a status other than 200, the wrapped
  handler is invoked once with \<open>None\<close> as its first argument; after an exchange answered
  by status 200 with a JSON object it is invoked once with the token built from that
  object. In these cases the handler runs on the request's session unchanged, the final
  session is the one it leaves and the response is what it returns or raises. When the
  POST raises, or the JSON decoding of a 200 answer raises, that exception propagates,
  the handler is not invoked and the session is left as it was.
\<close>

theorem login_autoexchange_invokes_or_raises:
  assumes "\<not> truthy (session_get st (session_token fi)) \<or>
           cbsync_check_token w (session_get st (session_token fi)) = Inr False"
  shows "(((args_code rq = None \<or> args_code rq = Some []) \<and> a = HVal JNone) \<or>
          (args_code rq = Some c \<and> c \<noteq> [] \<and>
           http_post w (baseurl fi @ ''/token'') (exchange_data fi c) exchange_headers = Inr resp \<and>
           status resp \<noteq> 200 \<and> a = HVal JNone) \<or>
          (args_code rq = Some c \<and> c \<noteq> [] \<and>
           http_post w (baseurl fi @ ''/token'') (exchange_data fi c) exchange_headers = Inr resp \<and>
           status resp = 200 \<and> json resp = Inr (PDict d) \<and> a = HTok (AuthToken d)) \<longrightarrow>
            handler_calls (trace (snd (login_autoexchange fi w rq st))) =
              handler_calls (trace st) @ [([a], session st)] \<and>
            fst (login_autoexchange fi w rq st) =
              (case fst (route_function w [a] (session st)) of
                 Inl e \<Rightarrow> Raised e | Inr res \<Rightarrow> Returned res) \<and>
            session (snd (login_autoexchange fi w rq st)) =
              snd (route_function w [a] (session st))) \<and>
         ((args_code rq = Some c \<and> c \<noteq> [] \<and>
           http_post w (baseurl fi @ ''/token'') (exchange_data fi c) exchange_headers = Inl e) \<or>
          (args_code rq = Some c \<and> c \<noteq> [] \<and>
           http_post w (baseurl fi @ ''/token'') (exchange_data fi c) exchange_headers = Inr resp \<and>
           status resp = 200 \<and> json resp = Inl e) \<longrightarrow>
            fst (login_autoexchange fi w rq st) = Raised e \<and>
            handler_calls (trace (snd (login_autoexchange fi w rq st))) = handler_calls (trace st) \<and>
            session (snd (login_autoexchange fi w rq st)) = session st) \<and>
         session_writes (trace (snd (login_autoexchange fi w rq st))) = session_writes (trace st) \<and>
         (\<forall>v. fst (login_autoexchange fi w rq st) \<noteq> Redirect v)"
proof -
  have 1: "handler_calls (trace (snd (login_autoexchange fi w rq st))) =
               handler_calls (trace st) @ [([a], session st)] \<and>
             fst (login_autoexchange fi w rq st) =
               (case fst (route_function w [a] (session st)) of
                  Inl e \<Rightarrow> Raised e | Inr res \<Rightarrow> Returned res) \<and>
             session (snd (login_autoexchange fi w rq st)) =
               snd (route_function w [a] (session st))"
    if "(args_code rq = None \<or> args_code rq = Some []) \<and> a = HVal JNone"
    using assms that
    by (auto simp: login_autoexchange_def Let_def split_def run_simps fst_invoke snd_invoke
        obs_append)
  have 2: "handler_calls (trace (snd (login_autoexchange fi w rq st))) =
               handler_calls (trace st) @ [([a], session st)] \<and>
             fst (login_autoexchange fi w rq st) =
               (case fst (route_function w [a] (session st)) of
                  Inl e \<Rightarrow> Raised e | Inr res \<Rightarrow> Returned res) \<and>
             session (snd (login_autoexchange fi w rq st)) =
               snd (route_function w [a] (session st))"
    if "args_code rq = Some c \<and> c \<noteq> [] \<and>
        http_post w (baseurl fi @ ''/token'') (exchange_data fi c) exchange_headers = Inr resp \<and>
        status resp \<noteq> 200 \<and> a = HVal JNone"
    using assms that
    by (auto simp: login_autoexchange_def Let_def split_def run_simps fst_invoke snd_invoke
        obs_append)
  have 3: "handler_calls (trace (snd (login_autoexchange fi w rq st))) =
               handler_calls (trace st) @ [([a], session st)] \<and>
             fst (login_autoexchange fi w rq st) =
               (case fst (route_function w [a] (session st)) of
                  Inl e \<Rightarrow> Raised e | Inr res \<Rightarrow> Returned res) \<and>
             session (snd (login_autoexchange fi w rq st)) =
               snd (route_function w [a] (session st))"
    if "args_code rq = Some c \<and> c \<noteq> [] \<and>
        http_post w (baseurl fi @ ''/token'') (exchange_data fi c) exchange_headers = Inr resp \<and>
        status resp = 200 \<and> json resp = Inr (PDict d) \<and> a = HTok (AuthToken d)"
    using assms that
    by (auto simp: login_autoexchange_def Let_def split_def run_simps fst_invoke snd_invoke
        obs_append)
  have 4: "fst (login_autoexchange fi w rq st) = Raised e \<and>
             handler_calls (trace (snd (login_autoexchange fi w rq st))) =
               handler_calls (trace st) \<and>
             session (snd (login_autoexchange fi w rq st)) = session st"
    if "args_code rq = Some c \<and> c \<noteq> [] \<and>
        http_post w (baseurl fi @ ''/token'') (exchange_data fi c) exchange_headers = Inl e"
    using assms that
    by (auto simp: login_autoexchange_def Let_def split_def run_simps fst_invoke snd_invoke
        obs_append)
  have 5: "fst (login_autoexchange fi w rq st) = Raised e \<and>
             handler_calls (trace (snd (login_autoexchange fi w rq st))) =
               handler_calls (trace st) \<and>
             session (snd (login_autoexchange fi w rq st)) = session st"
    if "args_code rq = Some c \<and> c \<noteq> [] \<and>
        http_post w (baseurl fi @ ''/token'') (exchange_data fi c) exchange_headers = Inr resp \<and>
        status resp = 200 \<and> json resp = Inl e"
    using assms that
    by (auto simp: login_autoexchange_def Let_def split_def run_simps fst_invoke snd_invoke
        obs_append)
  have 6: "session_writes (trace (snd (login_autoexchange fi w rq st))) = session_writes (trace st)"
    by (simp add: login_autoexchange_def Let_def split_def run_simps fst_invoke snd_invoke
        obs_append split: sum.split option.split post_result.split)
  have 7: "(\<forall>v. fst (login_autoexchange fi w rq st) \<noteq> Redirect v)"
    by (simp add: login_autoexchange_def Let_def split_def run_simps fst_invoke snd_invoke
        split: sum.split option.split post_result.split)
  from 1 2 3 4 5 6 7 show ?thesis by blast
qed

theorem login_autoexchange_invokes_or_raises_witness:
  "\<not> truthy (session_get state_empty (session_token example_fi)) \<and>
   args_code request_plain = None \<and>
   args_code request_badcode = Some ''zzz'' \<and> ''zzz'' \<noteq> [] \<and>
   http_post example_world (baseurl example_fi @
     ''/token'') (exchange_data example_fi ''zzz'') exchange_headers = Inr \<lparr>status = 400, json =
       Inl (ClientError ''no body'')\<rparr> \<and>
   status \<lparr>status = 400, json = Inl (ClientError ''no body'')\<rparr> \<noteq> 200 \<and>
   args_code request_code = Some ''abc123'' \<and> ''abc123'' \<noteq> [] \<and>
   http_post example_world (baseurl example_fi @
     ''/token'') (exchange_data example_fi ''abc123'') exchange_headers = Inr \<lparr>status =
       200, json = Inr (PDict example_response)\<rparr> \<and>
   status \<lparr>status = 200, json = Inr (PDict example_response)\<rparr> = 200 \<and> json \<lparr>status = 200, json =
     Inr (PDict example_response)\<rparr> = Inr (PDict example_response) \<and>
   args_code request_code = Some ''abc123'' \<and> ''abc123'' \<noteq> [] \<and>
   http_post offline_world (baseurl example_fi @
     ''/token'') (exchange_data example_fi ''abc123'') exchange_headers =
       Inl (ClientError ''connection refused'') \<and>
   handler_calls (trace (snd
     (login_autoexchange example_fi example_world request_plain state_empty))) =
     handler_calls (trace state_empty) @ [([(HVal JNone)], session state_empty)] \<and>
   fst (login_autoexchange example_fi example_world request_plain state_empty) =
     (case fst (route_function example_world [(HVal JNone)] (session state_empty)) of
        Inl e \<Rightarrow> Raised e | Inr res \<Rightarrow> Returned res) \<and>
   session (snd (login_autoexchange example_fi example_world request_plain state_empty)) =
     snd (route_function example_world [(HVal JNone)] (session state_empty)) \<and>
   handler_calls (trace (snd
     (login_autoexchange example_fi example_world request_badcode state_empty))) =
     handler_calls (trace state_empty) @ [([(HVal JNone)], session state_empty)] \<and>
   fst (login_autoexchange example_fi example_world request_badcode state_empty) =
     (case fst (route_function example_world [(HVal JNone)] (session state_empty)) of
        Inl e \<Rightarrow> Raised e | Inr res \<Rightarrow> Returned res) \<and>
   session (snd (login_autoexchange example_fi example_world request_badcode state_empty)) =
     snd (route_function example_world [(HVal JNone)] (session state_empty)) \<and>
   handler_calls (trace (snd
     (login_autoexchange example_fi example_world request_code state_empty))) =
     handler_calls (trace state_empty) @ [([(HTok (AuthToken example_response))],
       session state_empty)] \<and>
   fst (login_autoexchange example_fi example_world request_code state_empty) =
     (case fst (route_function example_world [(HTok (AuthToken example_response))]
       (session state_empty)) of
        Inl e \<Rightarrow> Raised e | Inr res \<Rightarrow> Returned res) \<and>
   session (snd (login_autoexchange example_fi example_world request_code state_empty)) =
     snd (route_function example_world [(HTok (AuthToken example_response))]
       (session state_empty)) \<and>
   fst (login_autoexchange example_fi offline_world request_code state_empty) =
     Raised (ClientError ''connection refused'') \<and>
   handler_calls (trace (snd
     (login_autoexchange example_fi offline_world request_code state_empty))) =
       handler_calls (trace state_empty) \<and>
   session (snd (login_autoexchange example_fi offline_world request_code state_empty)) =
     session state_empty \<and>
   session_writes (trace (snd
     (login_autoexchange example_fi example_world request_code state_empty))) =
       session_writes (trace state_empty) \<and>
   fst (login_autoexchange example_fi example_world request_code state_empty) \<noteq>
     Redirect (JStr (app_login_redirect example_fi))"
proof -
  have a1: "\<not> truthy (session_get state_empty (session_token example_fi))"
    by (simp add: example_defs exchange_data_def exchange_headers_def)
  have b1: "args_code request_plain = None"
    by (simp add: example_defs exchange_data_def exchange_headers_def)
  have b2: "args_code request_badcode = Some ''zzz'' \<and> ''zzz'' \<noteq> [] \<and>
    http_post example_world (baseurl example_fi @
      ''/token'') (exchange_data example_fi ''zzz'') exchange_headers = Inr \<lparr>status = 400, json =
        Inl (ClientError ''no body'')\<rparr> \<and>
    status \<lparr>status = 400, json = Inl (ClientError ''no body'')\<rparr> \<noteq> 200"
    by (simp add: example_defs exchange_data_def exchange_headers_def)
  have b3: "args_code request_code = Some ''abc123'' \<and> ''abc123'' \<noteq> [] \<and>
    http_post example_world (baseurl example_fi @
      ''/token'') (exchange_data example_fi ''abc123'') exchange_headers = Inr \<lparr>status =
        200, json = Inr (PDict example_response)\<rparr> \<and>
    status \<lparr>status = 200, json = Inr (PDict example_response)\<rparr> = 200 \<and> json \<lparr>status = 200, json =
      Inr (PDict example_response)\<rparr> = Inr (PDict example_response)"
    by (simp add: example_defs exchange_data_def exchange_headers_def)
  have b4: "args_code request_code = Some ''abc123'' \<and> ''abc123'' \<noteq> [] \<and>
    http_post offline_world (baseurl example_fi @
      ''/token'') (exchange_data example_fi ''abc123'') exchange_headers =
        Inl (ClientError ''connection refused'')"
    by (simp add: example_defs exchange_data_def exchange_headers_def)
  have p: "\<not> truthy (session_get state_empty (session_token example_fi)) \<or>
    cbsync_check_token example_world (session_get state_empty (session_token example_fi)) =
      Inr False"
    using a1 by blast
  have q: "\<not> truthy (session_get state_empty (session_token example_fi)) \<or>
    cbsync_check_token offline_world (session_get state_empty (session_token example_fi)) =
      Inr False"
    using a1 by blast
  note t1 = login_autoexchange_invokes_or_raises
    [where st = state_empty and fi = example_fi and w = example_world and rq = request_plain
       and a = "HVal JNone", OF p]
  note t2 = login_autoexchange_invokes_or_raises
    [where st = state_empty and fi = example_fi and w = example_world and rq = request_badcode
       and c = "''zzz''" and a = "HVal JNone"
       and resp = "\<lparr>status = 400, json = Inl (ClientError ''no body'')\<rparr>", OF p]
  note t3 = login_autoexchange_invokes_or_raises
    [where st = state_empty and fi = example_fi and w = example_world and rq = request_code
       and c = "''abc123''" and a = "HTok (AuthToken example_response)"
       and resp = "\<lparr>status = 200, json = Inr (PDict example_response)\<rparr>"
       and d = example_response, OF p]
  note t4 = login_autoexchange_invokes_or_raises
    [where st = state_empty and fi = example_fi and w = offline_world and rq = request_code
       and c = "''abc123''" and e = "ClientError ''connection refused''", OF q]
  from t1 b1 have c1: "handler_calls (trace (snd
    (login_autoexchange example_fi example_world request_plain state_empty))) =
      handler_calls (trace state_empty) @ [([(HVal JNone)], session state_empty)] \<and>
    fst (login_autoexchange example_fi example_world request_plain state_empty) =
      (case fst (route_function example_world [(HVal JNone)] (session state_empty)) of
         Inl e \<Rightarrow> Raised e | Inr res \<Rightarrow> Returned res) \<and>
    session (snd (login_autoexchange example_fi example_world request_plain state_empty)) =
      snd (route_function example_world [(HVal JNone)] (session state_empty))"
    by blast
  from t2 b2 have c2: "handler_calls (trace (snd
    (login_autoexchange example_fi example_world request_badcode state_empty))) =
      handler_calls (trace state_empty) @ [([(HVal JNone)], session state_empty)] \<and>
    fst (login_autoexchange example_fi example_world request_badcode state_empty) =
      (case fst (route_function example_world [(HVal JNone)] (session state_empty)) of
         Inl e \<Rightarrow> Raised e | Inr res \<Rightarrow> Returned res) \<and>
    session (snd (login_autoexchange example_fi example_world request_badcode state_empty)) =
      snd (route_function example_world [(HVal JNone)] (session state_empty))"
    by blast
  from t3 b3 have c3: "handler_calls (trace (snd
    (login_autoexchange example_fi example_world request_code state_empty))) =
      handler_calls (trace state_empty) @ [([(HTok (AuthToken example_response))],
        session state_empty)] \<and>
    fst (login_autoexchange example_fi example_world request_code state_empty) =
      (case fst (route_function example_world [(HTok (AuthToken example_response))]
        (session state_empty)) of
         Inl e \<Rightarrow> Raised e | Inr res \<Rightarrow> Returned res) \<and>
    session (snd (login_autoexchange example_fi example_world request_code state_empty)) =
      snd (route_function example_world [(HTok (AuthToken example_response))]
        (session state_empty))"
    by blast
  from t4 b4 have c4: "fst
    (login_autoexchange example_fi offline_world request_code state_empty) =
      Raised (ClientError ''connection refused'') \<and>
    handler_calls (trace (snd
      (login_autoexchange example_fi offline_world request_code state_empty))) =
        handler_calls (trace state_empty) \<and>
    session (snd (login_autoexchange example_fi offline_world request_code state_empty)) =
      session state_empty"
    by blast
  from t3 have c5: "session_writes (trace (snd
    (login_autoexchange example_fi example_world request_code state_empty))) =
      session_writes (trace state_empty)"
    by blast
  from t3 have c6: "fst (login_autoexchange example_fi example_world request_code state_empty) \<noteq>
      Redirect (JStr (app_login_redirect example_fi))"
    by blast
  from c1 c2 c3 c4 c5 c6 a1 b1 b2 b3 b4 show ?thesis by blast
qed

text \<open>
  Counterexample to C10 as stated: an empty session, \<open>code=abc123\<close>, and a token endpoint
  that cannot be reached, so that the POST raises. The decorator ends with that
  exception and the wrapped handler is never invoked.
\<close>

theorem login_autoexchange_post_raises_counterexample:
  "session_get state_empty (session_token example_fi) = JNone \<and>
   args_code request_code = Some ''abc123'' \<and>
   http_post offline_world (baseurl example_fi @ ''/token'')
     (exchange_data example_fi ''abc123'') exchange_headers =
     Inl (ClientError ''connection refused'') \<and>
   fst (login_autoexchange example_fi offline_world request_code state_empty) =
     Raised (ClientError ''connection refused'') \<and>
   handler_calls (trace (snd (login_autoexchange example_fi offline_world request_code
       state_empty))) = []"
  by (simp add: example_defs eval_defs login_autoexchange_def)

end
